theory Spec2Isabelle
  imports Main "HOL-Library.Word"
begin

unbundle bit_operations_syntax


section \<open>Status codes and bit macros\<close>

text \<open>
  \<^verbatim>\<open>fm_status\<close> is an integer in the source, \<^verbatim>\<open>FM_OK\<close> being zero. The model names the
  codes the two files use; \<open>FM_FAIL\<close> stands for any other failure an external call
  reports.
\<close>

datatype fm_status =
    FM_OK
  | FM_FAIL
  | FM_ERR_INVALID_ARGUMENT
  | FM_ERR_INVALID_PORT
  | FM_ERR_UNSUPPORTED
  | FM_ERR_NOT_FOUND
  | FM_ERR_NO_MEM
  | FM_ERR_NO_FREE_RESOURCES
  | FM_ERR_STATE_MACHINE_HANDLE
  | FM_ERR_STATE_MACHINE_TYPE

text \<open>
  \<^verbatim>\<open>FM_GET_BIT(rvalue, regname, bitname)\<close> is \<^verbatim>\<open>(rvalue >> regname_b_bitname) & 1\<close>. The
  register header with the positions \<^verbatim>\<open>FM10000_AN_IP_b_*\<close> is not part of the sources,
  so every function that tests a bit of the interrupt-pending mask takes the layout
  \<open>b\<close> (bit name to position) as a parameter.
\<close>

definition FM_GET_BIT :: "32 word \<Rightarrow> nat \<Rightarrow> bool" where
  "FM_GET_BIT rvalue pos = (drop_bit pos rvalue AND 1 \<noteq> 0)"

datatype an_ip_bit =
    An73AbilityDetect
  | An73AcknowledgeDetect
  | An73CompleteAcknowledge
  | An73NextPageWait
  | An73AnGoodCheck
  | An73AnGood
  | An73TransmitDisable
  | An37AnEnable
  | An37AnRestart
  | An37AnDisableLinkOk
  | An37AbilityDetect
  | An37CompleteAcknowledge
  | An37NextPageWait
  | An37IdleDetect
  | An37LinkOk

type_synonym an_ip_layout = "an_ip_bit \<Rightarrow> nat"


section \<open>Ports, state machines and the external collaborators\<close>

datatype sm_type =
    FM_SMTYPE_UNSPECIFIED
  | FM10000_CLAUSE37_AN_STATE_MACHINE
  | FM10000_CLAUSE73_AN_STATE_MACHINE
  | FM10000_PORT_STATE_MACHINE nat

datatype sm_state = FM10000_AN_STATE_DISABLED

datatype sm_event =
    FM10000_AN_EVENT_ABILITY_DETECT_IND
  | FM10000_AN_EVENT_ACK_DETECT_IND
  | FM10000_AN_EVENT_COMPLETE_ACK_IND
  | FM10000_AN_EVENT_NEXT_PAGE_WAIT_IND
  | FM10000_AN_EVENT_GOOD_CHECK_IND
  | FM10000_AN_EVENT_GOOD_IND
  | FM10000_AN_EVENT_TRANSMIT_DISABLE_IND
  | FM10000_AN_EVENT_ENABLE_IND
  | FM10000_AN_EVENT_RESTART_IND
  | FM10000_AN_EVENT_DISABLE_LINK_OK_IND
  | FM10000_AN_EVENT_IDLE_DETECT_IND
  | FM10000_AN_EVENT_LINK_OK_IND
  | FM10000_PORT_EVENT_AN_DISABLE_REQ
  | FM10000_PORT_EVENT_AN_CONFIG_REQ

datatype fm_autonegMode =
    FM_PORT_AUTONEG_NONE
  | FM_PORT_AUTONEG_SGMII
  | FM_PORT_AUTONEG_CLAUSE_37
  | FM_PORT_AUTONEG_CLAUSE_73
  | FM_PORT_AUTONEG_OTHER nat

datatype fm_ethMode =
    FM_ETH_MODE_DISABLED
  | FM_ETH_MODE_SGMII
  | FM_ETH_MODE_1000BASE_X
  | FM_ETH_MODE_1000BASE_KX
  | FM_ETH_MODE_AN_73
  | FM_ETH_MODE_10GBASE_KR
  | FM_ETH_MODE_25GBASE_KR
  | FM_ETH_MODE_25GBASE_CR
  | FM_ETH_MODE_40GBASE_KR4
  | FM_ETH_MODE_40GBASE_CR4
  | FM_ETH_MODE_100GBASE_KR4
  | FM_ETH_MODE_100GBASE_CR4

datatype fm_portType = FM_PORT_TYPE_PHYSICAL | FM_PORT_TYPE_CPU | FM_PORT_TYPE_OTHER

datatype fm_serdesRing = FM10000_SERDES_RING_NONE | FM10000_SERDES_RING_PCIE | FM10000_SERDES_RING_EPL

text \<open>
  \<^verbatim>\<open>fm_anNextPages\<close>: the page count and the buffer \<^verbatim>\<open>nextPages\<close> points to. The list is the
  whole buffer, which may be longer than \<open>numPages\<close>.
\<close>

record fm_anNextPages =
  numPages :: int
  nextPages :: "64 word list"

text \<open>
  The three autonegotiation settings, as they stand in the port attributes
  (\<^verbatim>\<open>fm_portAttr\<close>) and as \<^verbatim>\<open>eventInfo.info.anConfig\<close> carries them in an event.
\<close>

record fm_anConfig =
  autoNegMode :: fm_autonegMode
  autoNegBasePage :: "64 word"
  autoNegNextPages :: fm_anNextPages

record fm_portAttr = fm_anConfig +
  autoNegPartnerNextPages :: fm_anNextPages
  autoNeg25GNxtPgOui :: "32 word"

text \<open>\<^verbatim>\<open>eventInfo.info\<close> is a union: the model keeps the member written last.\<close>

datatype fm10000_eventInfoUnion =
    Info_unset
  | Info_physLane int
  | Info_anConfig "fm_anConfig"

record fm10000_portSmEventInfo =
  regLockTaken :: bool
  info :: fm10000_eventInfoUnion

record fm_port =
  portType :: fm_portType
  capabilities :: "32 word"

record fm10000_port =
  smType :: sm_type
  smHandle :: nat
  anSmType :: sm_type
  anSmHandle :: nat
  anInterruptMask :: "32 word"
  eventInfo :: fm10000_portSmEventInfo
  ring :: fm_serdesRing

text \<open>
  \<^verbatim>\<open>fm10000_lane\<close>: \<^verbatim>\<open>parentPortExt\<close> points to the extension of the port that owns the
  lane, or is \<^verbatim>\<open>NULL\<close>. The model keeps the number of that port
  (\<^verbatim>\<open>portExt->base->portNumber\<close>).
\<close>

record fm10000_lane =
  parentPortExt :: "int option"

text \<open>\<^verbatim>\<open>fm_smEventInfo\<close>, the generic event header (the lock is left out).\<close>

record fm_smEventInfo =
  ev_smType :: sm_type
  eventId :: sm_event
  dontSaveRecord :: bool

datatype hw_register = FM10000_AN_IM int int

text \<open>
  The calls that leave the two files: to the state-machine framework and to the
  switch's register primitives. Every call is logged with its arguments, in order.
\<close>

datatype ext_call =
    Call_fmNotifyStateMachineEvent nat fm_smEventInfo fm10000_portSmEventInfo int
  | Call_fmStopStateMachine nat
  | Call_fmStartStateMachine nat sm_type sm_state
  | Call_MaskUINT32 hw_register "32 word" bool

text \<open>
  The collaborators themselves are parameters: each takes its arguments and its own
  state \<open>'x\<close> (the framework's machines, the hardware registers) and returns a status.
  What a state-machine action does to the port tables in turn is outside these files
  and is not modelled.
\<close>

record 'x externals =
  fmNotifyStateMachineEvent ::
    "nat \<Rightarrow> fm_smEventInfo \<Rightarrow> fm10000_portSmEventInfo \<Rightarrow> int \<Rightarrow> 'x \<Rightarrow> fm_status \<times> 'x"
  fmStopStateMachine :: "nat \<Rightarrow> 'x \<Rightarrow> fm_status \<times> 'x"
  fmStartStateMachine :: "nat \<Rightarrow> sm_type \<Rightarrow> sm_state \<Rightarrow> 'x \<Rightarrow> fm_status \<times> 'x"
  MaskUINT32 :: "hw_register \<Rightarrow> 32 word \<Rightarrow> bool \<Rightarrow> 'x \<Rightarrow> fm_status \<times> 'x"
  fm10000MapEplLaneToSerdes :: "int \<Rightarrow> int \<Rightarrow> fm_status \<times> int"

text \<open>
  The switch state the autonegotiation code reaches through \<^verbatim>\<open>GET_PORT_EXT\<close>,
  \<^verbatim>\<open>GET_PORT_PTR\<close>, \<^verbatim>\<open>GET_PORT_ATTR\<close> and \<^verbatim>\<open>GET_LANE_EXT\<close>, the log of external calls and
  the externals' state.
\<close>

record 'x world =
  portExt :: "int \<Rightarrow> fm10000_port"
  portPtr :: "int \<Rightarrow> fm_port"
  portAttr :: "int \<Rightarrow> fm_portAttr"
  laneExt :: "int \<Rightarrow> fm10000_lane option"
  calls :: "ext_call list"
  ext :: "'x"

definition call_fmNotifyStateMachineEvent ::
  "'x externals \<Rightarrow> nat \<Rightarrow> fm_smEventInfo \<Rightarrow> int \<Rightarrow> 'x world \<Rightarrow> fm_status \<times> 'x world" where
  "call_fmNotifyStateMachineEvent E handle ei port w =
     (let userInfo = eventInfo (portExt w port);
          r = fmNotifyStateMachineEvent E handle ei userInfo port (ext w)
      in (fst r, w\<lparr>calls := calls w @ [Call_fmNotifyStateMachineEvent handle ei userInfo port],
                    ext := snd r\<rparr>))"

definition call_fmStopStateMachine :: "'x externals \<Rightarrow> nat \<Rightarrow> 'x world \<Rightarrow> fm_status \<times> 'x world" where
  "call_fmStopStateMachine E handle w =
     (let r = fmStopStateMachine E handle (ext w)
      in (fst r, w\<lparr>calls := calls w @ [Call_fmStopStateMachine handle], ext := snd r\<rparr>))"

definition call_fmStartStateMachine ::
  "'x externals \<Rightarrow> nat \<Rightarrow> sm_type \<Rightarrow> sm_state \<Rightarrow> 'x world \<Rightarrow> fm_status \<times> 'x world" where
  "call_fmStartStateMachine E handle t s w =
     (let r = fmStartStateMachine E handle t s (ext w)
      in (fst r, w\<lparr>calls := calls w @ [Call_fmStartStateMachine handle t s], ext := snd r\<rparr>))"

definition call_MaskUINT32 ::
  "'x externals \<Rightarrow> hw_register \<Rightarrow> 32 word \<Rightarrow> bool \<Rightarrow> 'x world \<Rightarrow> fm_status \<times> 'x world" where
  "call_MaskUINT32 E reg msk on w =
     (let r = MaskUINT32 E reg msk on (ext w)
      in (fst r, w\<lparr>calls := calls w @ [Call_MaskUINT32 reg msk on], ext := snd r\<rparr>))"

text \<open>
  \<^verbatim>\<open>FM_LOG_ABORT_ON_ERR\<close> jumps to the \<^verbatim>\<open>ABORT\<close> label when the status is not \<^verbatim>\<open>FM_OK\<close>:
  \<open>abort_on_err f g\<close> runs \<open>f\<close> and goes on with \<open>g\<close> only on \<open>FM_OK\<close>.
\<close>

definition abort_on_err ::
  "('w \<Rightarrow> fm_status \<times> 'w) \<Rightarrow> ('w \<Rightarrow> fm_status \<times> 'w) \<Rightarrow> 'w \<Rightarrow> fm_status \<times> 'w" where
  "abort_on_err f g w = (case f w of (status, w') \<Rightarrow> if status \<noteq> FM_OK then (status, w') else g w')"


section \<open>The autonegotiation event dispatcher\<close>

text \<open>
  One \<^verbatim>\<open>if ( FM_GET_BIT( anIp, FM10000_AN_IP, ... ) ) { ... }\<close> block of the two notify
  functions: when the bit is pending, clear \<^verbatim>\<open>portExt->eventInfo.regLockTaken\<close> and send
  the event to \<^verbatim>\<open>portExt->anSmHandle\<close>; otherwise the status stays \<^verbatim>\<open>FM_OK\<close>.
\<close>

definition send_an_event :: "'x externals \<Rightarrow> sm_type \<Rightarrow> int \<Rightarrow> sm_event \<Rightarrow> 'x world \<Rightarrow> fm_status \<times> 'x world" where
  "send_an_event E smt port ev w =
     (let pe = portExt w port;
          w1 = w\<lparr>portExt := (portExt w)(port := pe\<lparr>eventInfo := (eventInfo pe)\<lparr>regLockTaken := False\<rparr>\<rparr>)\<rparr>
      in call_fmNotifyStateMachineEvent E (anSmHandle (portExt w1 port))
           \<lparr>ev_smType = smt, eventId = ev, dontSaveRecord = False\<rparr> port w1)"

definition if_pending ::
  "32 word \<Rightarrow> nat \<Rightarrow> ('w \<Rightarrow> fm_status \<times> 'w) \<Rightarrow> 'w \<Rightarrow> fm_status \<times> 'w" where
  "if_pending anIp pos f w = (if FM_GET_BIT anIp pos then f w else (FM_OK, w))"

definition NotifyClause73Events ::
  "'x externals \<Rightarrow> an_ip_layout \<Rightarrow> int \<Rightarrow> 32 word \<Rightarrow> 'x world \<Rightarrow> fm_status \<times> 'x world" where
  "NotifyClause73Events E b port anIp =
     (let send = send_an_event E FM10000_CLAUSE73_AN_STATE_MACHINE port in
      abort_on_err (if_pending anIp (b An73AbilityDetect) (send FM10000_AN_EVENT_ABILITY_DETECT_IND))
     (abort_on_err (if_pending anIp (b An73AcknowledgeDetect) (send FM10000_AN_EVENT_ACK_DETECT_IND))
     (abort_on_err (if_pending anIp (b An73CompleteAcknowledge) (send FM10000_AN_EVENT_COMPLETE_ACK_IND))
     (abort_on_err (if_pending anIp (b An73NextPageWait) (send FM10000_AN_EVENT_NEXT_PAGE_WAIT_IND))
     (abort_on_err (if_pending anIp (b An73AnGoodCheck) (send FM10000_AN_EVENT_GOOD_CHECK_IND))
     (abort_on_err (if_pending anIp (b An73AnGood) (send FM10000_AN_EVENT_GOOD_IND))
                   (if_pending anIp (b An73TransmitDisable) (send FM10000_AN_EVENT_TRANSMIT_DISABLE_IND))))))))"

definition NotifyClause37Events ::
  "'x externals \<Rightarrow> an_ip_layout \<Rightarrow> int \<Rightarrow> 32 word \<Rightarrow> 'x world \<Rightarrow> fm_status \<times> 'x world" where
  "NotifyClause37Events E b port anIp =
     (let send = send_an_event E FM10000_CLAUSE37_AN_STATE_MACHINE port in
      abort_on_err (if_pending anIp (b An37AnEnable) (send FM10000_AN_EVENT_ENABLE_IND))
     (abort_on_err (if_pending anIp (b An37AnRestart) (send FM10000_AN_EVENT_RESTART_IND))
     (abort_on_err (if_pending anIp (b An37AnDisableLinkOk) (send FM10000_AN_EVENT_DISABLE_LINK_OK_IND))
     (abort_on_err (if_pending anIp (b An37AbilityDetect) (send FM10000_AN_EVENT_ABILITY_DETECT_IND))
     (abort_on_err (if_pending anIp (b An37CompleteAcknowledge) (send FM10000_AN_EVENT_COMPLETE_ACK_IND))
     (abort_on_err (if_pending anIp (b An37NextPageWait) (send FM10000_AN_EVENT_GOOD_CHECK_IND))
     (abort_on_err (if_pending anIp (b An37IdleDetect) (send FM10000_AN_EVENT_IDLE_DETECT_IND))
                   (if_pending anIp (b An37LinkOk) (send FM10000_AN_EVENT_LINK_OK_IND)))))))))"

text \<open>
  \<^verbatim>\<open>fm10000AnEventHandler\<close>. Every path reaches the \<^verbatim>\<open>ABORT\<close> label, where the status is
  overwritten by that of \<^verbatim>\<open>MaskUINT32(sw, FM10000_AN_IM(epl, lane), anIp, FALSE)\<close>.
\<close>

definition AnEventHandler_dispatch ::
  "'x externals \<Rightarrow> an_ip_layout \<Rightarrow> int \<Rightarrow> int \<Rightarrow> 32 word \<Rightarrow> 'x world \<Rightarrow> fm_status \<times> 'x world" where
  "AnEventHandler_dispatch E b epl lane anIp w =
     (case fm10000MapEplLaneToSerdes E epl lane of (status, serDes) \<Rightarrow>
        if status \<noteq> FM_OK then (status, w)
        else
          (case laneExt w serDes of
             None \<Rightarrow> (status, w)
           | Some le \<Rightarrow>
               (case parentPortExt le of
                  None \<Rightarrow> (status, w)
                | Some port \<Rightarrow>
                    (let pe = portExt w port;
                         w1 = w\<lparr>portExt := (portExt w)
                                (port := pe\<lparr>eventInfo := (eventInfo pe)\<lparr>info := Info_physLane lane\<rparr>\<rparr>)\<rparr>
                     in if anSmType (portExt w1 port) = FM10000_CLAUSE73_AN_STATE_MACHINE
                        then NotifyClause73Events E b port anIp w1
                        else if anSmType (portExt w1 port) = FM10000_CLAUSE37_AN_STATE_MACHINE
                        then NotifyClause37Events E b port anIp w1
                        else (status, w1)))))"

definition fm10000AnEventHandler ::
  "'x externals \<Rightarrow> an_ip_layout \<Rightarrow> int \<Rightarrow> int \<Rightarrow> 32 word \<Rightarrow> 'x world \<Rightarrow> fm_status \<times> 'x world" where
  "fm10000AnEventHandler E b epl lane anIp w =
     (case AnEventHandler_dispatch E b epl lane anIp w of (status, w') \<Rightarrow>
        call_MaskUINT32 E (FM10000_AN_IM epl lane) anIp False w')"

text \<open>
  The dispatcher as the specification words it: the events of the pending bits, taken
  in the scan order, are delivered one after the other, and the first delivery that
  does not return \<^verbatim>\<open>FM_OK\<close> ends the chain.
\<close>

fun deliver_in_order ::
  "('e \<Rightarrow> 'w \<Rightarrow> fm_status \<times> 'w) \<Rightarrow> 'e list \<Rightarrow> 'w \<Rightarrow> fm_status \<times> 'w" where
  "deliver_in_order deliver [] w = (FM_OK, w)"
| "deliver_in_order deliver (e # es) w =
     (case deliver e w of (status, w') \<Rightarrow>
        if status \<noteq> FM_OK then (status, w') else deliver_in_order deliver es w')"

text \<open>
  The same chain on the framework's side. The events \<open>evs\<close> are handed one after the
  other to \<^verbatim>\<open>fmNotifyStateMachineEvent\<close> for the machine \<open>h\<close> of type \<open>smt\<close>, each with
  the user record \<open>ui\<close>; every delivery starts from the state the one before it left,
  and the first status that is not \<^verbatim>\<open>FM_OK\<close> ends the chain. The result is the status
  of the last delivery made (\<^verbatim>\<open>FM_OK\<close> when there is none), the calls made, in order, and
  the state of the framework afterwards.
\<close>

fun sm_deliveries ::
  "'x externals \<Rightarrow> nat \<Rightarrow> sm_type \<Rightarrow> fm10000_portSmEventInfo \<Rightarrow> int \<Rightarrow> sm_event list \<Rightarrow> 'x \<Rightarrow>
   fm_status \<times> ext_call list \<times> 'x" where
  "sm_deliveries E h smt ui port [] x = (FM_OK, [], x)"
| "sm_deliveries E h smt ui port (ev # evs) x =
     (let ei = \<lparr>ev_smType = smt, eventId = ev, dontSaveRecord = False\<rparr>;
          r = fmNotifyStateMachineEvent E h ei ui port x
      in if fst r \<noteq> FM_OK
         then (fst r, [Call_fmNotifyStateMachineEvent h ei ui port], snd r)
         else (case sm_deliveries E h smt ui port evs (snd r) of
                 (status, cs, x') \<Rightarrow> (status, Call_fmNotifyStateMachineEvent h ei ui port # cs, x')))"

text \<open>The Clause 73 bits in the order of the specification, each with its event.\<close>

definition an73_scan :: "(an_ip_bit \<times> sm_event) list" where
  "an73_scan =
    [(An73AbilityDetect, FM10000_AN_EVENT_ABILITY_DETECT_IND),
     (An73AcknowledgeDetect, FM10000_AN_EVENT_ACK_DETECT_IND),
     (An73CompleteAcknowledge, FM10000_AN_EVENT_COMPLETE_ACK_IND),
     (An73NextPageWait, FM10000_AN_EVENT_NEXT_PAGE_WAIT_IND),
     (An73AnGoodCheck, FM10000_AN_EVENT_GOOD_CHECK_IND),
     (An73AnGood, FM10000_AN_EVENT_GOOD_IND),
     (An73TransmitDisable, FM10000_AN_EVENT_TRANSMIT_DISABLE_IND)]"

text \<open>The events of the bits of a scan list that are pending in \<open>anIp\<close>, in scan order.\<close>

definition pending_events ::
  "an_ip_layout \<Rightarrow> 32 word \<Rightarrow> (an_ip_bit \<times> sm_event) list \<Rightarrow> sm_event list" where
  "pending_events b anIp scan = map snd (filter (\<lambda>p. bit anIp (b (fst p))) scan)"

text \<open>The events a list of calls delivered, each with its handle and machine type.\<close>

fun delivered_events :: "ext_call list \<Rightarrow> (nat \<times> sm_type \<times> sm_event) list" where
  "delivered_events [] = []"
| "delivered_events (Call_fmNotifyStateMachineEvent h ei ui p # cs) =
     (h, ev_smType ei, eventId ei) # delivered_events cs"
| "delivered_events (c # cs) = delivered_events cs"

text \<open>
  The Clause 37 bits in the order of the specification, each with the event that
  corresponds to it.
\<close>

definition an37_scan :: "(an_ip_bit \<times> sm_event) list" where
  "an37_scan =
    [(An37AnEnable, FM10000_AN_EVENT_ENABLE_IND),
     (An37AnRestart, FM10000_AN_EVENT_RESTART_IND),
     (An37AnDisableLinkOk, FM10000_AN_EVENT_DISABLE_LINK_OK_IND),
     (An37AbilityDetect, FM10000_AN_EVENT_ABILITY_DETECT_IND),
     (An37CompleteAcknowledge, FM10000_AN_EVENT_COMPLETE_ACK_IND),
     (An37NextPageWait, FM10000_AN_EVENT_NEXT_PAGE_WAIT_IND),
     (An37IdleDetect, FM10000_AN_EVENT_IDLE_DETECT_IND),
     (An37LinkOk, FM10000_AN_EVENT_LINK_OK_IND)]"

text \<open>
  The same bits with the event identifiers \<^verbatim>\<open>NotifyClause37Events\<close> assigns in its eight
  blocks, read off the source.
\<close>

definition an37_scan_source :: "(an_ip_bit \<times> sm_event) list" where
  "an37_scan_source =
    [(An37AnEnable, FM10000_AN_EVENT_ENABLE_IND),
     (An37AnRestart, FM10000_AN_EVENT_RESTART_IND),
     (An37AnDisableLinkOk, FM10000_AN_EVENT_DISABLE_LINK_OK_IND),
     (An37AbilityDetect, FM10000_AN_EVENT_ABILITY_DETECT_IND),
     (An37CompleteAcknowledge, FM10000_AN_EVENT_COMPLETE_ACK_IND),
     (An37NextPageWait, FM10000_AN_EVENT_GOOD_CHECK_IND),
     (An37IdleDetect, FM10000_AN_EVENT_IDLE_DETECT_IND),
     (An37LinkOk, FM10000_AN_EVENT_LINK_OK_IND)]"

text \<open>The register-mask calls in a list of calls, in order.\<close>

fun mask_calls :: "ext_call list \<Rightarrow> (hw_register \<times> 32 word \<times> bool) list" where
  "mask_calls [] = []"
| "mask_calls (Call_MaskUINT32 r m on # cs) = (r, m, on) # mask_calls cs"
| "mask_calls (c # cs) = mask_calls cs"

section \<open>Constants of the headers\<close>

text \<open>
  The register and API headers are not part of the sources. The constants the modelled
  functions take from them are collected in one record and passed as a parameter
  \<open>c\<close>: the two interrupt-mask templates, the position of the technology-ability
  field \<^verbatim>\<open>A\<close> in the Clause 73 base page and of the message-code field \<^verbatim>\<open>MU\<close> in a next
  page, the ability masks, the port-capability bits and the OUI message code.
\<close>

record an_consts =
  FM10000_AN73_INT_MASK :: "32 word"
  FM10000_AN37_INT_MASK :: "32 word"
  FM10000_AN_73_BASE_PAGE_TX_l_A :: nat
  FM10000_AN_73_BASE_PAGE_TX_h_A :: nat
  FM10000_AN_73_NEXT_PAGE_RX_l_MU :: nat
  FM10000_AN_73_NEXT_PAGE_RX_h_MU :: nat
  FM10000_AN_NEXTPAGE_OUI_MSG_CODE :: "64 word"
  FM10000_AN73_UNSUPPORTED_ABILITIES :: "32 word"
  FM10000_AN73_SUPPORTED_ABILITIES :: "32 word"
  FM10000_AN73_ABILITIES_40G :: "32 word"
  FM10000_AN73_ABILITIES_100G :: "32 word"
  FM10000_AN73_ABILITY_1000BASE_KX :: "32 word"
  FM10000_AN73_ABILITY_10GBASE_KR :: "32 word"
  FM10000_AN73_ABILITY_25GBASE_KR :: "32 word"
  FM10000_AN73_ABILITY_25GBASE_CR :: "32 word"
  FM10000_AN73_ABILITY_40GBASE_KR4 :: "32 word"
  FM10000_AN73_ABILITY_40GBASE_CR4 :: "32 word"
  FM10000_AN73_ABILITY_100GBASE_KR4 :: "32 word"
  FM10000_AN73_ABILITY_100GBASE_CR4 :: "32 word"
  FM_PORT_CAPABILITY_SPEED_1G :: "32 word"
  FM_PORT_CAPABILITY_SPEED_10G :: "32 word"
  FM_PORT_CAPABILITY_SPEED_25G :: "32 word"
  FM_PORT_CAPABILITY_SPEED_40G :: "32 word"
  FM_PORT_CAPABILITY_SPEED_100G :: "32 word"

text \<open>
  Modelled from the spec: the field macros \<^verbatim>\<open>FM_GET_FIELD64\<close>, \<^verbatim>\<open>FM_SET_FIELD64\<close>,
  \<^verbatim>\<open>FM_GET_UNNAMED_FIELD64\<close> and \<^verbatim>\<open>FM_GET_UNNAMED_BIT64\<close> are missing from the sources.
  The specification has the ability field extracted from the base page and the cleaned
  ability written back into it, and reads bits \<open>[8:0]\<close>, single bits and bit ranges of
  a next page: a field is the bits \<open>l\<close> to \<open>h\<close> of a 64-bit word, read shifted down to
  bit 0, and written without touching the other bits of the word; an unnamed field is
  given by its first bit and its length.
\<close>

definition FM_GET_FIELD64 :: "64 word \<Rightarrow> nat \<Rightarrow> nat \<Rightarrow> 64 word" where
  "FM_GET_FIELD64 rvalue l h = drop_bit l rvalue AND (push_bit (h - l) 2 - 1)"

definition FM_SET_FIELD64 :: "64 word \<Rightarrow> nat \<Rightarrow> nat \<Rightarrow> 64 word \<Rightarrow> 64 word" where
  "FM_SET_FIELD64 lvalue l h fieldvalue =
     lvalue XOR push_bit l ((drop_bit l lvalue XOR fieldvalue) AND (push_bit (h - l) 2 - 1))"

definition FM_GET_UNNAMED_FIELD64 :: "64 word \<Rightarrow> nat \<Rightarrow> nat \<Rightarrow> 64 word" where
  "FM_GET_UNNAMED_FIELD64 lvalue start len = drop_bit start lvalue AND (push_bit len 1 - 1)"

definition FM_GET_UNNAMED_BIT64 :: "64 word \<Rightarrow> nat \<Rightarrow> 64 word" where
  "FM_GET_UNNAMED_BIT64 lvalue pos = drop_bit pos lvalue AND 1"


section \<open>Restart on a new configuration\<close>

text \<open>
  \<^verbatim>\<open>fm10000IsPortAutonegReady\<close> with both out-parameters given (the one caller in the
  file passes the addresses of two locals). The result is (status, \<^verbatim>\<open>*ready\<close>, \<^verbatim>\<open>*smType\<close>).
\<close>

definition fm10000IsPortAutonegReady ::
  "int \<Rightarrow> fm_ethMode \<Rightarrow> fm_autonegMode \<Rightarrow> 'x world \<Rightarrow> fm_status \<times> bool \<times> sm_type" where
  "fm10000IsPortAutonegReady port ethMode anMode w =
     (let pe = portExt w port; pp = portPtr w port
      in if (portType pp = FM_PORT_TYPE_PHYSICAL \<or> (portType pp = FM_PORT_TYPE_CPU \<and> port \<noteq> 0))
            \<and> ring pe = FM10000_SERDES_RING_EPL
         then
           (let r0 = (False, anSmType pe);
                r1 = (if anMode = FM_PORT_AUTONEG_CLAUSE_73
                      then (if ethMode = FM_ETH_MODE_AN_73 then True else fst r0,
                            FM10000_CLAUSE73_AN_STATE_MACHINE)
                      else r0);
                r2 = (if anMode = FM_PORT_AUTONEG_CLAUSE_37 \<or> anMode = FM_PORT_AUTONEG_SGMII
                      then (if ethMode = FM_ETH_MODE_1000BASE_X \<or> ethMode = FM_ETH_MODE_SGMII
                            then True else fst r1,
                            FM10000_CLAUSE37_AN_STATE_MACHINE)
                      else r1)
            in (FM_OK, r2))
         else (FM_ERR_INVALID_PORT, False, FM_SMTYPE_UNSPECIFIED))"

text \<open>
  \<^verbatim>\<open>fm10000AnSendConfigEvent\<close>: the event goes to the port's own state machine
  (\<^verbatim>\<open>portExt->smHandle\<close>, type \<^verbatim>\<open>portExt->smType\<close>) and carries the three settings in
  \<^verbatim>\<open>eventInfo.info.anConfig\<close>.
\<close>

definition fm10000AnSendConfigEvent ::
  "'x externals \<Rightarrow> int \<Rightarrow> sm_event \<Rightarrow> fm_autonegMode \<Rightarrow> 64 word \<Rightarrow> fm_anNextPages \<Rightarrow>
   'x world \<Rightarrow> fm_status \<times> 'x world" where
  "fm10000AnSendConfigEvent E port evId mode basepage nextPgs w =
     (let pe = portExt w port;
          ei = \<lparr>ev_smType = smType pe, eventId = evId, dontSaveRecord = False\<rparr>;
          w1 = w\<lparr>portExt := (portExt w)
                 (port := pe\<lparr>eventInfo := (eventInfo pe)
                    \<lparr>info := Info_anConfig \<lparr>autoNegMode = mode, autoNegBasePage = basepage,
                                            autoNegNextPages = nextPgs\<rparr>,
                     regLockTaken := False\<rparr>\<rparr>)\<rparr>
      in call_fmNotifyStateMachineEvent E (smHandle (portExt w1 port)) ei port w1)"

text \<open>
  The block \<^verbatim>\<open>if ( newAnSmType != portExt->anSmType ) { ... }\<close> of
  \<^verbatim>\<open>fm10000AnRestartOnNewConfig\<close>. The statuses of the disable event and of
  \<^verbatim>\<open>fmStopStateMachine\<close> are dropped, as in the source; a failing
  \<^verbatim>\<open>fmStartStateMachine\<close> jumps to \<^verbatim>\<open>ABORT\<close>.
\<close>

definition AnRestart_switch_sm ::
  "'x externals \<Rightarrow> int \<Rightarrow> sm_type \<Rightarrow> 'x world \<Rightarrow> fm_status \<times> 'x world" where
  "AnRestart_switch_sm E port newAnSmType w =
     (if newAnSmType \<noteq> anSmType (portExt w port) then
        (let w2 =
           (if anSmType (portExt w port) \<noteq> FM_SMTYPE_UNSPECIFIED then
              (let pa = portAttr w port;
                   w1 = snd (fm10000AnSendConfigEvent E port FM10000_PORT_EVENT_AN_DISABLE_REQ
                               (autoNegMode pa) (autoNegBasePage pa) (autoNegNextPages pa) w)
               in snd (call_fmStopStateMachine E (anSmHandle (portExt w1 port)) w1))
            else w)
         in abort_on_err
              (call_fmStartStateMachine E (anSmHandle (portExt w2 port)) newAnSmType
                 FM10000_AN_STATE_DISABLED)
              (\<lambda>w3. (FM_OK, w3\<lparr>portExt := (portExt w3)
                                (port := (portExt w3 port)\<lparr>anSmType := newAnSmType\<rparr>)\<rparr>))
              w2)
      else (FM_OK, w))"

definition fm10000AnRestartOnNewConfig ::
  "'x externals \<Rightarrow> an_consts \<Rightarrow> int \<Rightarrow> fm_ethMode \<Rightarrow> fm_autonegMode \<Rightarrow> 64 word \<Rightarrow>
   fm_anNextPages \<Rightarrow> 'x world \<Rightarrow> fm_status \<times> 'x world" where
  "fm10000AnRestartOnNewConfig E c port ethMode anMode basepage nextPgs w =
     (case fm10000IsPortAutonegReady port ethMode anMode w of
        (status, anReady, newAnSmType) \<Rightarrow>
          if status = FM_OK \<and> anReady = True then
            abort_on_err (AnRestart_switch_sm E port newAnSmType)
              (\<lambda>w3.
                 let pe = portExt w3 port;
                     w4 = (if anMode = FM_PORT_AUTONEG_CLAUSE_73
                           then w3\<lparr>portExt := (portExt w3)
                                  (port := pe\<lparr>anInterruptMask := FM10000_AN73_INT_MASK c\<rparr>)\<rparr>
                           else if anMode = FM_PORT_AUTONEG_CLAUSE_37 \<or>
                                   anMode = FM_PORT_AUTONEG_SGMII
                           then w3\<lparr>portExt := (portExt w3)
                                  (port := pe\<lparr>anInterruptMask := FM10000_AN37_INT_MASK c\<rparr>)\<rparr>
                           else w3)
                 in fm10000AnSendConfigEvent E port FM10000_PORT_EVENT_AN_CONFIG_REQ
                      anMode basepage nextPgs w4)
              w
          else (status, w))"


text \<open>
  The call that \<^verbatim>\<open>fm10000AnSendConfigEvent\<close> makes for a port whose extension is \<open>pe\<close>: the
  event \<open>evId\<close> to the port's state machine, carrying the three settings.
\<close>

definition an_config_call ::
  "fm10000_port \<Rightarrow> sm_event \<Rightarrow> fm_autonegMode \<Rightarrow> 64 word \<Rightarrow> fm_anNextPages \<Rightarrow> int \<Rightarrow> ext_call" where
  "an_config_call pe evId mode basepage nextPgs port =
     Call_fmNotifyStateMachineEvent (smHandle pe)
       \<lparr>ev_smType = smType pe, eventId = evId, dontSaveRecord = False\<rparr>
       \<lparr>regLockTaken = False,
        info = Info_anConfig \<lparr>autoNegMode = mode, autoNegBasePage = basepage,
                               autoNegNextPages = nextPgs\<rparr>\<rparr> port"


text \<open>
  The state of the framework at the moment \<^verbatim>\<open>fm10000AnRestartOnNewConfig\<close> starts the new
  machine: on a port bound to a machine, the state left by the disable event and then by
  \<^verbatim>\<open>fmStopStateMachine\<close>; on a port bound to none, the state at the call.
\<close>

definition AnRestart_state_at_start :: "'x externals \<Rightarrow> int \<Rightarrow> 'x world \<Rightarrow> 'x" where
  "AnRestart_state_at_start E port w =
     (let pe = portExt w port; pa = portAttr w port
      in if anSmType pe \<noteq> FM_SMTYPE_UNSPECIFIED
         then snd (fmStopStateMachine E (anSmHandle pe)
                (snd (fmNotifyStateMachineEvent E (smHandle pe)
                   \<lparr>ev_smType = smType pe, eventId = FM10000_PORT_EVENT_AN_DISABLE_REQ,
                    dontSaveRecord = False\<rparr>
                   \<lparr>regLockTaken = False,
                    info = Info_anConfig \<lparr>autoNegMode = autoNegMode pa,
                                           autoNegBasePage = autoNegBasePage pa,
                                           autoNegNextPages = autoNegNextPages pa\<rparr>\<rparr>
                   port (ext w))))
         else ext w)"


section \<open>Base page validation\<close>

text \<open>
  \<^verbatim>\<open>fm10000AnValidateBasePage\<close>. \<open>modBasePage\<close> is what \<^verbatim>\<open>*modBasePage\<close> holds before the call;
  the result is the status and what it holds afterwards (an early \<^verbatim>\<open>return\<close> leaves it
  as it was). \<^verbatim>\<open>ability\<close> is an \<^verbatim>\<open>fm_uint\<close>: the 64-bit field value is cut to 32 bits.
\<close>

definition fm10000AnValidateBasePage ::
  "an_consts \<Rightarrow> int \<Rightarrow> fm_autonegMode \<Rightarrow> 64 word \<Rightarrow> 64 word \<Rightarrow> 'x world \<Rightarrow> fm_status \<times> 64 word" where
  "fm10000AnValidateBasePage c port mode basepage modBasePage w =
     (let caps = capabilities (portPtr w port);
          l = FM10000_AN_73_BASE_PAGE_TX_l_A c;
          h = FM10000_AN_73_BASE_PAGE_TX_h_A c
      in if mode = FM_PORT_AUTONEG_CLAUSE_73 then
           (let ability0 = (ucast (FM_GET_FIELD64 basepage l h) :: 32 word)
            in if ability0 \<noteq> 0 then
                 (let ability = ability0 AND NOT (FM10000_AN73_UNSUPPORTED_ABILITIES c)
                  in if ability = 0 then (FM_ERR_UNSUPPORTED, modBasePage)
                     else if ability AND FM10000_AN73_ABILITY_1000BASE_KX c \<noteq> 0 \<and>
                             \<not> (caps AND FM_PORT_CAPABILITY_SPEED_1G c \<noteq> 0)
                     then (FM_ERR_UNSUPPORTED, modBasePage)
                     else if ability AND FM10000_AN73_ABILITY_10GBASE_KR c \<noteq> 0 \<and>
                             \<not> (caps AND FM_PORT_CAPABILITY_SPEED_10G c \<noteq> 0)
                     then (FM_ERR_UNSUPPORTED, modBasePage)
                     else if ability AND FM10000_AN73_ABILITY_25GBASE_KR c \<noteq> 0 \<and>
                             \<not> (caps AND FM_PORT_CAPABILITY_SPEED_25G c \<noteq> 0)
                     then (FM_ERR_UNSUPPORTED, modBasePage)
                     else if ability AND FM10000_AN73_ABILITY_40GBASE_KR4 c \<noteq> 0 \<and>
                             \<not> (caps AND FM_PORT_CAPABILITY_SPEED_40G c \<noteq> 0)
                     then (FM_ERR_UNSUPPORTED, modBasePage)
                     else if ability AND FM10000_AN73_ABILITY_40GBASE_CR4 c \<noteq> 0 \<and>
                             \<not> (caps AND FM_PORT_CAPABILITY_SPEED_40G c \<noteq> 0)
                     then (FM_ERR_UNSUPPORTED, modBasePage)
                     else if ability AND FM10000_AN73_ABILITY_100GBASE_KR4 c \<noteq> 0 \<and>
                             \<not> (caps AND FM_PORT_CAPABILITY_SPEED_100G c \<noteq> 0)
                     then (FM_ERR_UNSUPPORTED, modBasePage)
                     else if ability AND FM10000_AN73_ABILITY_100GBASE_CR4 c \<noteq> 0 \<and>
                             \<not> (caps AND FM_PORT_CAPABILITY_SPEED_100G c \<noteq> 0)
                     then (FM_ERR_UNSUPPORTED, modBasePage)
                     else (FM_OK, FM_SET_FIELD64 modBasePage l h (ucast ability)))
               else (FM_OK, FM_SET_FIELD64 modBasePage l h (ucast ability0)))
         else (FM_OK, modBasePage))"

text \<open>
  The abilities that \<^verbatim>\<open>fm10000AnValidateBasePage\<close> checks against the port's capabilities,
  each with the capability bit it asks for, in the order of the source.
\<close>

definition checked_abilities :: "an_consts \<Rightarrow> (32 word \<times> 32 word) list" where
  "checked_abilities c =
     [(FM10000_AN73_ABILITY_1000BASE_KX c, FM_PORT_CAPABILITY_SPEED_1G c),
      (FM10000_AN73_ABILITY_10GBASE_KR c, FM_PORT_CAPABILITY_SPEED_10G c),
      (FM10000_AN73_ABILITY_25GBASE_KR c, FM_PORT_CAPABILITY_SPEED_25G c),
      (FM10000_AN73_ABILITY_40GBASE_KR4 c, FM_PORT_CAPABILITY_SPEED_40G c),
      (FM10000_AN73_ABILITY_40GBASE_CR4 c, FM_PORT_CAPABILITY_SPEED_40G c),
      (FM10000_AN73_ABILITY_100GBASE_KR4 c, FM_PORT_CAPABILITY_SPEED_100G c),
      (FM10000_AN73_ABILITY_100GBASE_CR4 c, FM_PORT_CAPABILITY_SPEED_100G c)]"

text \<open>
  The eight supported abilities of the specification, each with the speed it
  advertises.
\<close>

definition ability_speeds :: "an_consts \<Rightarrow> (32 word \<times> 32 word) list" where
  "ability_speeds c =
     [(FM10000_AN73_ABILITY_1000BASE_KX c, FM_PORT_CAPABILITY_SPEED_1G c),
      (FM10000_AN73_ABILITY_10GBASE_KR c, FM_PORT_CAPABILITY_SPEED_10G c),
      (FM10000_AN73_ABILITY_25GBASE_KR c, FM_PORT_CAPABILITY_SPEED_25G c),
      (FM10000_AN73_ABILITY_25GBASE_CR c, FM_PORT_CAPABILITY_SPEED_25G c),
      (FM10000_AN73_ABILITY_40GBASE_KR4 c, FM_PORT_CAPABILITY_SPEED_40G c),
      (FM10000_AN73_ABILITY_40GBASE_CR4 c, FM_PORT_CAPABILITY_SPEED_40G c),
      (FM10000_AN73_ABILITY_100GBASE_KR4 c, FM_PORT_CAPABILITY_SPEED_100G c),
      (FM10000_AN73_ABILITY_100GBASE_CR4 c, FM_PORT_CAPABILITY_SPEED_100G c)]"

section \<open>Next pages and the maximum speed\<close>

text \<open>
  Reading \<^verbatim>\<open>nextPages[i]\<close>: the buffer is a C array, and an index outside it has no
  defined value. \<open>page_at\<close> gives \<open>None\<close> there, and the functions that read pages give
  \<open>None\<close> as soon as one read does.
\<close>

definition page_at :: "64 word list \<Rightarrow> int \<Rightarrow> 64 word option" where
  "page_at buf i = (if 0 \<le> i \<and> nat i < length buf then Some (buf ! nat i) else None)"

text \<open>
  The three \<^verbatim>\<open>for (cnt = ...)\<close> loops that collect the OUI: bits 9 and 10 of the
  unformatted page, then bits 32 to 42 and bits 16 to 26 of the message page.
\<close>

definition next_page_oui :: "64 word \<Rightarrow> 64 word \<Rightarrow> 32 word" where
  "next_page_oui pageA pageB =
     (let oui0 = (0 :: 32 word);
          oui1 = fold (\<lambda>cnt oui. oui OR ucast (push_bit cnt (FM_GET_UNNAMED_BIT64 pageB (9 + cnt))))
                   [0..<2] oui0;
          oui2 = fold (\<lambda>cnt oui. oui OR ucast (push_bit (cnt + 2) (FM_GET_UNNAMED_BIT64 pageA (32 + cnt))))
                   [0..<11] oui1;
          oui3 = fold (\<lambda>cnt oui. oui OR ucast (push_bit (cnt + 13) (FM_GET_UNNAMED_BIT64 pageA (16 + cnt))))
                   [0..<11] oui2
      in oui3)"

text \<open>
  The loop of \<^verbatim>\<open>fm10000AnGetNextPageExtTechAbilityIndex\<close> on \<open>pageNum\<close>, with the pair
  (\<^verbatim>\<open>err\<close>, \<^verbatim>\<open>*extTechAbIndex\<close>) as its state. The loop has no \<^verbatim>\<open>break\<close>: a later match
  overwrites an earlier one. The test \<^verbatim>\<open>pageNum >= numPages\<close> is kept where the source
  has it.
\<close>

function ExtTechAbilityIndex_loop ::
  "an_consts \<Rightarrow> 32 word \<Rightarrow> 64 word list \<Rightarrow> int \<Rightarrow> int \<Rightarrow> fm_status \<times> 32 word \<Rightarrow>
   (fm_status \<times> 32 word) option" where
  "ExtTechAbilityIndex_loop c localOui buf numPgs pageNum st =
     (if pageNum < numPgs then
        (case page_at buf pageNum of
           None \<Rightarrow> None
         | Some pageA \<Rightarrow>
             if FM_GET_FIELD64 pageA (FM10000_AN_73_NEXT_PAGE_RX_l_MU c)
                  (FM10000_AN_73_NEXT_PAGE_RX_h_MU c) = FM10000_AN_NEXTPAGE_OUI_MSG_CODE c
             then
               (if pageNum \<ge> numPgs
                then ExtTechAbilityIndex_loop c localOui buf numPgs (pageNum + 1) st
                else
                  (case page_at buf (pageNum + 1) of
                     None \<Rightarrow> None
                   | Some pageB \<Rightarrow>
                       if (ucast (FM_GET_UNNAMED_FIELD64 pageB 0 9) :: 32 word) = 3
                       then
                         (if next_page_oui pageA pageB = localOui
                          then ExtTechAbilityIndex_loop c localOui buf numPgs (pageNum + 1)
                                 (FM_OK, word_of_int (pageNum + 1))
                          else ExtTechAbilityIndex_loop c localOui buf numPgs (pageNum + 1) st)
                       else ExtTechAbilityIndex_loop c localOui buf numPgs (pageNum + 1) st))
             else ExtTechAbilityIndex_loop c localOui buf numPgs (pageNum + 1) st)
      else Some st)"
  by pat_completeness auto
termination
  by (relation "measure (\<lambda>(c, oui, buf, numPgs, pageNum, st). nat (numPgs - pageNum))") auto

declare ExtTechAbilityIndex_loop.simps [simp del]

text \<open>
  \<open>localOui\<close> is \<^verbatim>\<open>portAttr->autoNeg25GNxtPgOui\<close>. The out-parameter starts at \<open>-1\<close>
  (an \<^verbatim>\<open>fm_uint\<close>) and the status at \<^verbatim>\<open>FM_ERR_NOT_FOUND\<close>.
\<close>

definition fm10000AnGetNextPageExtTechAbilityIndex ::
  "an_consts \<Rightarrow> 32 word \<Rightarrow> 64 word list \<Rightarrow> int \<Rightarrow> (fm_status \<times> 32 word) option" where
  "fm10000AnGetNextPageExtTechAbilityIndex c localOui buf numPgs =
     ExtTechAbilityIndex_loop c localOui buf numPgs 0 (FM_ERR_NOT_FOUND, - 1)"












section \<open>Autonegotiation timer scaling\<close>

text \<open>
  \<^verbatim>\<open>fm10000AnGetTimeScale\<close> works on \<^verbatim>\<open>fm_uint\<close> (32-bit unsigned) values. They are
  modelled as natural numbers with the wrap-around of the two places that multiply
  written out (\<open>mod 4294967296\<close>, that is \<open>2 ^ 32\<close>).

  The loop \<^verbatim>\<open>for (*timeScale = 2; *timeScale <= 7; (*timeScale)++)\<close> is the recursion
  \<open>AnGetTimeScale_loop\<close> on the loop variable; \<open>ts\<close> and \<open>timeout\<close> are the local
  \<^verbatim>\<open>ts\<close> and the out-parameter \<^verbatim>\<open>*timeout\<close>. The result is the triple
  (returned value, \<^verbatim>\<open>*timeScale\<close>, \<^verbatim>\<open>*timeout\<close>).
\<close>

function AnGetTimeScale_loop :: "nat \<Rightarrow> nat \<Rightarrow> nat \<Rightarrow> nat \<Rightarrow> nat \<Rightarrow> nat \<times> nat \<times> nat" where
  "AnGetTimeScale_loop timeoutUsec timeoutMax timeScale ts timeout =
     (if timeScale \<le> 7 then
        (let timeout' = timeoutUsec div ts;
             ts' = (ts * 10) mod 4294967296
         in if timeout' < timeoutMax
            then ((ts' div 10 * timeout') mod 4294967296, timeScale, timeout')
            else AnGetTimeScale_loop timeoutUsec timeoutMax (timeScale + 1) ts' timeout')
      else ((ts div 10 * timeout) mod 4294967296, timeScale, timeout))"
  by pat_completeness auto
termination
  by (relation "measure (\<lambda>(u, m, timeScale, ts, t). 8 - timeScale)") auto

declare AnGetTimeScale_loop.simps [simp del]

text \<open>\<open>timeout0\<close> is what the caller's \<^verbatim>\<open>*timeout\<close> held before the call.\<close>

definition fm10000AnGetTimeScale :: "nat \<Rightarrow> nat \<Rightarrow> nat \<Rightarrow> nat \<times> nat \<times> nat" where
  "fm10000AnGetTimeScale timeoutUsec timeoutMax timeout0 =
     AnGetTimeScale_loop timeoutUsec timeoutMax 2 1 timeout0"

text \<open>
  The search as the specification words it: the first timescale from 2 up to 7 whose
  count \<open>usec div 10 ^ (timescale - 2)\<close> is below the hardware maximum.
\<close>

definition first_time_scale :: "nat \<Rightarrow> nat \<Rightarrow> nat option" where
  "first_time_scale usec mx = find (\<lambda>t. usec div 10 ^ (t - 2) < mx) [2, 3, 4, 5, 6, 7]"


section \<open>Transceiver management\<close>

datatype fm_platformXcvrType =
    FM_PLATFORM_XCVR_TYPE_NOT_PRESENT
  | FM_PLATFORM_XCVR_TYPE_UNKNOWN
  | FM_PLATFORM_XCVR_TYPE_KNOWN nat

datatype fm_platIntfType =
    FM_PLAT_INTF_TYPE_NONE
  | FM_PLAT_INTF_TYPE_SFPP
  | FM_PLAT_INTF_TYPE_QSFP_LANE0
  | FM_PLAT_INTF_TYPE_QSFP_LANE1
  | FM_PLAT_INTF_TYPE_QSFP_LANE2
  | FM_PLAT_INTF_TYPE_QSFP_LANE3

text \<open>
  \<^verbatim>\<open>fm_platXcvrInfo\<close>, one per port index. The field \<^verbatim>\<open>type\<close> is \<open>xcvrType\<close> here and
  \<^verbatim>\<open>ethMode\<close> is \<open>xcvrEthMode\<close>. \<^verbatim>\<open>present\<close> and \<^verbatim>\<open>anEnabled\<close> are \<^verbatim>\<open>fm_bool\<close>: the model keeps
  whether the stored value is non-zero.
\<close>

record fm_platXcvrInfo =
  modState :: "32 word"
  present :: bool
  xcvrEthMode :: fm_ethMode
  anEnabled :: bool
  xcvrType :: fm_platformXcvrType
  cableLength :: int
  eeprom :: "8 word list"
  eepromBaseValid :: bool
  eepromExtValid :: bool
  eepromReadRetries :: int
  configRetries :: int

record fm_platformCfgPort =
  cfgPort :: int
  intfType :: fm_platIntfType
  hwResourceId :: "32 word"

text \<open>
  The module-state bits \<^verbatim>\<open>FM_PLAT_XCVR_*\<close> come from the platform library's header,
  which is not part of the sources: they are a parameter.
\<close>

record plat_consts =
  FM_PLAT_XCVR_PRESENT :: "32 word"
  FM_PLAT_XCVR_ENABLE :: "32 word"
  FM_PLAT_XCVR_RXLOS :: "32 word"
  FM_PLAT_XCVR_TXFAULT :: "32 word"
  FM_PLAT_XCVR_INTR :: "32 word"

text \<open>
  The platform collaborators the modelled functions call: the EEPROM read (given the
  port and the buffer, it returns a status and what the buffer holds afterwards), the
  EEPROM codec, the byte write to the module, the PHY driver and the port attribute
  \<^verbatim>\<open>FM_PORT_AUTONEG\<close>.
\<close>

record plat_lib =
  fmPlatformXcvrEepromRead :: "int \<Rightarrow> 8 word list \<Rightarrow> fm_status \<times> 8 word list"
  fmPlatformXcvrEepromIsBaseCsumValid :: "8 word list \<Rightarrow> bool"
  fmPlatformXcvrEepromIsExtCsumValid :: "8 word list \<Rightarrow> bool"
  fmPlatformXcvrEepromGetType :: "8 word list \<Rightarrow> fm_platformXcvrType"
  fmPlatformXcvrEepromGetLen :: "8 word list \<Rightarrow> int"
  fmPlatformXcvrIs1000BaseT :: "8 word list \<Rightarrow> bool"
  fmPlatformXcvrIs10G1G :: "8 word list \<Rightarrow> bool"
  fmPlatformXcvrMemWrite :: "int \<Rightarrow> int \<Rightarrow> int \<Rightarrow> 8 word \<Rightarrow> fm_status"
  fmPlatformPhyEnable1000BaseTAutoNeg :: "int \<Rightarrow> bool \<Rightarrow> fm_status"
  fmGetPortAttributeV2_AUTONEG :: "int \<Rightarrow> fm_status \<times> fm_autonegMode"

definition MAX_EEPROM_READ_RETRY :: int where
  "MAX_EEPROM_READ_RETRY = 4"

definition MAX_CONFIG_RETRY :: int where
  "MAX_CONFIG_RETRY = 4"

definition IsSfppModule1000BaseT :: "plat_lib \<Rightarrow> fm_platXcvrInfo \<Rightarrow> bool" where
  "IsSfppModule1000BaseT L xi =
     (if eepromBaseValid xi then fmPlatformXcvrIs1000BaseT L (eeprom xi) else False)"

definition IsSfppModuleDualRate :: "plat_lib \<Rightarrow> fm_platXcvrInfo \<Rightarrow> bool" where
  "IsSfppModuleDualRate L xi =
     (if eepromBaseValid xi then fmPlatformXcvrIs10G1G L (eeprom xi) else False)"

definition IsSfppPort1G :: "fm_platXcvrInfo \<Rightarrow> bool" where
  "IsSfppPort1G xi =
     (case xcvrEthMode xi of
        FM_ETH_MODE_DISABLED \<Rightarrow> True
      | FM_ETH_MODE_SGMII \<Rightarrow> True
      | FM_ETH_MODE_1000BASE_X \<Rightarrow> True
      | FM_ETH_MODE_1000BASE_KX \<Rightarrow> True
      | _ \<Rightarrow> False)"

definition IsPortAnEnabled :: "plat_lib \<Rightarrow> int \<Rightarrow> bool" where
  "IsPortAnEnabled L prt =
     (case fmGetPortAttributeV2_AUTONEG L prt of (status, anEn) \<Rightarrow>
        if status = FM_OK
        then anEn = FM_PORT_AUTONEG_SGMII \<or> anEn = FM_PORT_AUTONEG_CLAUSE_37
        else False)"

definition ConfigureSfppXcvr :: "plat_lib \<Rightarrow> plat_consts \<Rightarrow> int \<Rightarrow> fm_platXcvrInfo \<Rightarrow> fm_status" where
  "ConfigureSfppXcvr L pc prt xi =
     (if \<not> (modState xi AND FM_PLAT_XCVR_ENABLE pc \<noteq> 0) then FM_OK
      else
        (let s1 =
           (if IsSfppModuleDualRate L xi then
              (let data = (if IsSfppPort1G xi then 0x0 else 0x8);
                   sa = fmPlatformXcvrMemWrite L prt 1 110 data
               in if sa \<noteq> FM_OK then sa else fmPlatformXcvrMemWrite L prt 1 118 data)
            else FM_OK)
         in if s1 \<noteq> FM_OK then s1
            else if IsSfppModule1000BaseT L xi then
              (let enable = IsPortAnEnabled L prt
               in if anEnabled xi \<noteq> enable
                  then (let s2 = fmPlatformPhyEnable1000BaseTAutoNeg L prt enable
                        in if s2 \<noteq> FM_OK then s2 else FM_OK)
                  else FM_OK)
            else FM_OK))"

text \<open>
  \<^verbatim>\<open>UpdateXcvrConfig\<close> and \<^verbatim>\<open>XcvrReadAndValidateEeprom\<close> work on the record of
  \<open>portIndex\<close> (\<^verbatim>\<open>&GET_PLAT_STATE(sw)->xcvrInfo[portIndex]\<close>); the model takes the whole
  array and returns it updated. \<^verbatim>\<open>UpdateSerdesSettings\<close> only calls the SerDes
  collaborator and writes none of the records: it leaves no trace in the model.
\<close>

definition UpdateXcvrConfig ::
  "plat_lib \<Rightarrow> plat_consts \<Rightarrow> fm_platformCfgPort list \<Rightarrow> nat \<Rightarrow> int \<Rightarrow>
   fm_platXcvrInfo list \<Rightarrow> fm_platXcvrInfo list" where
  "UpdateXcvrConfig L pc cfgs portIndex retries xcvrInfo =
     (let portCfg = cfgs ! portIndex
      in if intfType portCfg = FM_PLAT_INTF_TYPE_SFPP then
           (let xi = (xcvrInfo ! portIndex)\<lparr>configRetries := retries - 1\<rparr>
            in if ConfigureSfppXcvr L pc (cfgPort portCfg) xi \<noteq> FM_OK
               then xcvrInfo[portIndex := xi\<lparr>configRetries := retries - 1\<rparr>]
               else xcvrInfo[portIndex := xi\<lparr>configRetries := 0\<rparr>])
         else xcvrInfo)"

definition XcvrReadAndValidateEeprom ::
  "plat_lib \<Rightarrow> fm_platformCfgPort list \<Rightarrow> nat \<Rightarrow> bool \<Rightarrow> fm_platXcvrInfo list \<Rightarrow>
   fm_status \<times> fm_platXcvrInfo list" where
  "XcvrReadAndValidateEeprom L cfgs portIndex retry xcvrInfo =
     (let portCfg = cfgs ! portIndex;
          xi0 = xcvrInfo ! portIndex
      in case fmPlatformXcvrEepromRead L (cfgPort portCfg) (eeprom xi0) of (status, buf) \<Rightarrow>
           (let xi = xi0\<lparr>eeprom := buf\<rparr>
            in if status = FM_OK then
                 (let xi1 = xi\<lparr>eepromReadRetries := 0,
                               eepromBaseValid := fmPlatformXcvrEepromIsBaseCsumValid L buf,
                               eepromExtValid := fmPlatformXcvrEepromIsExtCsumValid L buf\<rparr>;
                      xi2 = (if eepromBaseValid xi1
                             then xi1\<lparr>xcvrType := fmPlatformXcvrEepromGetType L buf,
                                      cableLength := fmPlatformXcvrEepromGetLen L buf\<rparr>
                             else xi1\<lparr>xcvrType := FM_PLATFORM_XCVR_TYPE_UNKNOWN,
                                      cableLength := 0\<rparr>)
                  in (status, xcvrInfo[portIndex := xi2]))
               else if \<not> retry then
                 (status, xcvrInfo[portIndex := xi\<lparr>eepromReadRetries := MAX_EEPROM_READ_RETRY,
                                                   xcvrType := FM_PLATFORM_XCVR_TYPE_UNKNOWN\<rparr>])
               else (status, xcvrInfo[portIndex := xi])))"

text \<open>
  One turn of the loop \<^verbatim>\<open>for (hwResIdIdx = 0 ; hwResIdIdx < numPorts ; hwResIdIdx++)\<close> of
  \<^verbatim>\<open>XcvrUpdateState\<close>, for the port index \<open>portIdx\<close> and the valid and state words the
  platform library reported for it. The turn is split where the source reads the EEPROM
  again: \<open>XcvrUpdateState_change\<close> is the code from \<^verbatim>\<open>if (oldState ^ xcvrState)\<close> down to the
  end of the \<^verbatim>\<open>ENABLE\<close> block, and gives the records and \<^verbatim>\<open>notify\<close>.

  In the source \<^verbatim>\<open>xcvrInfo\<close> is the base of the array, so \<^verbatim>\<open>xcvrInfo->eeprom\<close>,
  \<^verbatim>\<open>xcvrInfo->configRetries\<close> and \<^verbatim>\<open>xcvrInfo->anEnabled\<close> are fields of the record at index 0,
  while \<^verbatim>\<open>xcvrInfo[portIdx].type\<close> and its neighbours are fields of the record at \<open>portIdx\<close>.
  \<^verbatim>\<open>FM_MEMSET_S\<close> fills the whole cache, whatever its size, with \<open>0xFF\<close>.
\<close>

definition XcvrUpdateState_change ::
  "plat_consts \<Rightarrow> nat \<Rightarrow> 32 word \<Rightarrow> 32 word \<Rightarrow> fm_platXcvrInfo list \<Rightarrow>
   fm_platXcvrInfo list \<times> bool" where
  "XcvrUpdateState_change pc portIdx xcvrStateValid xcvrState xcvrInfo =
     (let oldState = modState (xcvrInfo ! portIdx);
          pres = (xcvrState AND FM_PLAT_XCVR_PRESENT pc \<noteq> 0);
          x1 = xcvrInfo[portIdx := (xcvrInfo ! portIdx)\<lparr>modState := xcvrState\<rparr>];
          r2 = (if xcvrStateValid AND FM_PLAT_XCVR_PRESENT pc \<noteq> 0 \<and>
                   oldState AND FM_PLAT_XCVR_PRESENT pc \<noteq> xcvrState AND FM_PLAT_XCVR_PRESENT pc
                then
                  (let x1a = x1[portIdx := (x1 ! portIdx)
                               \<lparr>xcvrType := FM_PLATFORM_XCVR_TYPE_NOT_PRESENT,
                                cableLength := 0,
                                present := pres,
                                eepromBaseValid := False,
                                eepromExtValid := False,
                                eepromReadRetries := 0\<rparr>];
                       x1b = x1a[0 := (x1a ! 0)
                               \<lparr>eeprom := replicate (length (eeprom (x1a ! 0))) 0xFF\<rparr>]
                   in (x1b, True))
                else (x1, False));
          r3 = (if xcvrStateValid AND FM_PLAT_XCVR_ENABLE pc \<noteq> 0 \<and>
                   oldState AND FM_PLAT_XCVR_ENABLE pc \<noteq> xcvrState AND FM_PLAT_XCVR_ENABLE pc
                then
                  (let x2 = fst r2
                   in (x2[0 := (x2 ! 0)\<lparr>configRetries := 0, anEnabled := False\<rparr>], True))
                else r2)
      in r3)"

definition XcvrUpdateState_port ::
  "plat_lib \<Rightarrow> plat_consts \<Rightarrow> fm_platformCfgPort list \<Rightarrow> nat \<Rightarrow> 32 word \<Rightarrow> 32 word \<Rightarrow>
   fm_platXcvrInfo list \<Rightarrow> fm_platXcvrInfo list \<times> bool" where
  "XcvrUpdateState_port L pc cfgs portIdx xcvrStateValid xcvrState xcvrInfo =
     (let portCfg = cfgs ! portIdx
      in if \<not> (intfType portCfg = FM_PLAT_INTF_TYPE_SFPP \<or>
                intfType portCfg = FM_PLAT_INTF_TYPE_QSFP_LANE0)
         then (xcvrInfo, False)
         else
           (let oldState = modState (xcvrInfo ! portIdx);
                pres = (xcvrState AND FM_PLAT_XCVR_PRESENT pc \<noteq> 0)
            in if oldState XOR xcvrState \<noteq> 0 then
                 (case XcvrUpdateState_change pc portIdx xcvrStateValid xcvrState xcvrInfo of
                    (x3, notify) \<Rightarrow>
                      (let x4 =
                         (if notify \<and> pres \<and> xcvrState AND FM_PLAT_XCVR_ENABLE pc \<noteq> 0 then
                            (case XcvrReadAndValidateEeprom L cfgs portIdx False x3 of
                               (status, x) \<Rightarrow>
                                 if status = FM_OK
                                 then UpdateXcvrConfig L pc cfgs portIdx MAX_CONFIG_RETRY x
                                 else x)
                          else x3);
                           notify5 =
                             (if xcvrStateValid AND FM_PLAT_XCVR_RXLOS pc \<noteq> 0 \<and>
                                 oldState AND FM_PLAT_XCVR_RXLOS pc \<noteq>
                                 xcvrState AND FM_PLAT_XCVR_RXLOS pc
                              then True else notify);
                           notify6 =
                             (if xcvrStateValid AND FM_PLAT_XCVR_TXFAULT pc \<noteq> 0 \<and>
                                 oldState AND FM_PLAT_XCVR_TXFAULT pc \<noteq>
                                 xcvrState AND FM_PLAT_XCVR_TXFAULT pc
                              then True else notify5)
                       in (x4, notify6)))
               else (xcvrInfo, False)))"

text \<open>
  The loop itself, over the entries (port index, valid word, state word) in the order of
  \<^verbatim>\<open>hwResIdIdxList\<close>. An index outside the port table has no defined meaning in the
  source: the sweep is \<open>None\<close> then. The notifications sent when \<^verbatim>\<open>notify || force\<close> write
  none of the records and are left out.
\<close>

fun XcvrUpdateState_loop ::
  "plat_lib \<Rightarrow> plat_consts \<Rightarrow> fm_platformCfgPort list \<Rightarrow> (nat \<times> 32 word \<times> 32 word) list \<Rightarrow>
   fm_platXcvrInfo list \<Rightarrow> fm_platXcvrInfo list option" where
  "XcvrUpdateState_loop L pc cfgs [] xcvrInfo = Some xcvrInfo"
| "XcvrUpdateState_loop L pc cfgs ((portIdx, xcvrStateValid, xcvrState) # rest) xcvrInfo =
     (if portIdx < length cfgs \<and> portIdx < length xcvrInfo
      then XcvrUpdateState_loop L pc cfgs rest
             (fst (XcvrUpdateState_port L pc cfgs portIdx xcvrStateValid xcvrState xcvrInfo))
      else None)"


section \<open>Example inputs\<close>

text \<open>A constants record and collaborators for the examples.\<close>

definition an_consts_example :: an_consts where
  "an_consts_example =
     \<lparr>FM10000_AN73_INT_MASK = 0x3FF, FM10000_AN37_INT_MASK = 0x7FC00,
      FM10000_AN_73_BASE_PAGE_TX_l_A = 21, FM10000_AN_73_BASE_PAGE_TX_h_A = 45,
      FM10000_AN_73_NEXT_PAGE_RX_l_MU = 0, FM10000_AN_73_NEXT_PAGE_RX_h_MU = 10,
      FM10000_AN_NEXTPAGE_OUI_MSG_CODE = 5,
      FM10000_AN73_UNSUPPORTED_ABILITIES = 0x1FFF862,
      FM10000_AN73_SUPPORTED_ABILITIES = 0x79D,
      FM10000_AN73_ABILITIES_40G = 0x18, FM10000_AN73_ABILITIES_100G = 0x180,
      FM10000_AN73_ABILITY_1000BASE_KX = 0x1, FM10000_AN73_ABILITY_10GBASE_KR = 0x4,
      FM10000_AN73_ABILITY_25GBASE_KR = 0x200, FM10000_AN73_ABILITY_25GBASE_CR = 0x400,
      FM10000_AN73_ABILITY_40GBASE_KR4 = 0x8, FM10000_AN73_ABILITY_40GBASE_CR4 = 0x10,
      FM10000_AN73_ABILITY_100GBASE_KR4 = 0x80, FM10000_AN73_ABILITY_100GBASE_CR4 = 0x100,
      FM_PORT_CAPABILITY_SPEED_1G = 0x40, FM_PORT_CAPABILITY_SPEED_10G = 0x100,
      FM_PORT_CAPABILITY_SPEED_25G = 0x400, FM_PORT_CAPABILITY_SPEED_40G = 0x800,
      FM_PORT_CAPABILITY_SPEED_100G = 0x1000\<rparr>"


text \<open>
  A layout of the interrupt-pending register for the examples: the Clause 73 bits from
  bit 0, the Clause 37 bits after them.
\<close>

fun an_ip_layout_example :: an_ip_layout where
  "an_ip_layout_example An73AbilityDetect = 0"
| "an_ip_layout_example An73AcknowledgeDetect = 1"
| "an_ip_layout_example An73CompleteAcknowledge = 2"
| "an_ip_layout_example An73NextPageWait = 3"
| "an_ip_layout_example An73AnGoodCheck = 4"
| "an_ip_layout_example An73AnGood = 5"
| "an_ip_layout_example An73TransmitDisable = 6"
| "an_ip_layout_example An37AnEnable = 7"
| "an_ip_layout_example An37AnRestart = 8"
| "an_ip_layout_example An37AnDisableLinkOk = 9"
| "an_ip_layout_example An37AbilityDetect = 10"
| "an_ip_layout_example An37CompleteAcknowledge = 11"
| "an_ip_layout_example An37NextPageWait = 12"
| "an_ip_layout_example An37IdleDetect = 13"
| "an_ip_layout_example An37LinkOk = 14"

text \<open>
  Collaborators that always succeed and keep no state; lane \<open>l\<close> of EPL \<open>e\<close> is SerDes
  \<open>4 * e + l\<close>.
\<close>

definition externals_ok :: "unit externals" where
  "externals_ok =
     \<lparr>fmNotifyStateMachineEvent = (\<lambda>h ei ui p x. (FM_OK, x)),
      fmStopStateMachine = (\<lambda>h x. (FM_OK, x)),
      fmStartStateMachine = (\<lambda>h t s x. (FM_OK, x)),
      MaskUINT32 = (\<lambda>r m on x. (FM_OK, x)),
      fm10000MapEplLaneToSerdes = (\<lambda>epl lane. (FM_OK, 4 * epl + lane))\<rparr>"

text \<open>
  A switch with physical EPL ports: port 1 is bound to the Clause 73 machine, port 2 to
  the Clause 37 machine, every other port to none. SerDes \<open>n\<close> belongs to port \<open>n\<close> for
  \<open>n\<close> from 1 to 3; SerDes 4 has a lane with no parent port; the others have no lane.
\<close>

definition port_example :: "sm_type \<Rightarrow> fm10000_port" where
  "port_example t =
     \<lparr>smType = FM10000_PORT_STATE_MACHINE 0, smHandle = 10, anSmType = t, anSmHandle = 20,
      anInterruptMask = 0, eventInfo = \<lparr>regLockTaken = True, info = Info_unset\<rparr>,
      ring = FM10000_SERDES_RING_EPL\<rparr>"

definition portAttr_example :: fm_portAttr where
  "portAttr_example =
     \<lparr>autoNegMode = FM_PORT_AUTONEG_CLAUSE_73, autoNegBasePage = 0x800001,
      autoNegNextPages = \<lparr>numPages = 0, nextPages = []\<rparr>,
      autoNegPartnerNextPages = \<lparr>numPages = 0, nextPages = []\<rparr>,
      autoNeg25GNxtPgOui = 0x6A737D\<rparr>"

definition world_example :: "unit world" where
  "world_example =
     \<lparr>portExt = (\<lambda>p. if p = 1 then port_example FM10000_CLAUSE73_AN_STATE_MACHINE
                      else if p = 2 then port_example FM10000_CLAUSE37_AN_STATE_MACHINE
                      else port_example FM_SMTYPE_UNSPECIFIED),
      portPtr = (\<lambda>p. \<lparr>portType = FM_PORT_TYPE_PHYSICAL, capabilities = 0x140\<rparr>),
      portAttr = (\<lambda>p. portAttr_example),
      laneExt = (\<lambda>s. if 1 \<le> s \<and> s \<le> 3 then Some \<lparr>parentPortExt = Some s\<rparr>
                      else if s = 4 then Some \<lparr>parentPortExt = None\<rparr> else None),
      calls = [],
      ext = ()\<rparr>"

text \<open>
  Collaborators with a state of their own: the handles of the running machines, the
  number of event records the framework can still take, and the interrupt-mask registers.
  A machine cannot be started on a handle that runs one; a delivery fails when no event
  record is free; \<^verbatim>\<open>MaskUINT32\<close> sets the bits of the mask in the register when \<open>on\<close> is
  true and clears them otherwise.
\<close>

record sm_hw_example =
  running :: "nat \<Rightarrow> bool"
  free_records :: nat
  an_im :: "hw_register \<Rightarrow> 32 word"

definition externals_stateful :: "sm_hw_example externals" where
  "externals_stateful =
     \<lparr>fmNotifyStateMachineEvent =
        (\<lambda>h ei ui p x. if free_records x = 0 then (FM_ERR_NO_MEM, x)
                        else (FM_OK, x\<lparr>free_records := free_records x - 1\<rparr>)),
      fmStopStateMachine = (\<lambda>h x. (FM_OK, x\<lparr>running := (running x)(h := False)\<rparr>)),
      fmStartStateMachine =
        (\<lambda>h t s x. if running x h then (FM_ERR_STATE_MACHINE_HANDLE, x)
                    else (FM_OK, x\<lparr>running := (running x)(h := True)\<rparr>)),
      MaskUINT32 =
        (\<lambda>r m on x. (FM_OK, x\<lparr>an_im := (an_im x)
                                 (r := if on then an_im x r OR m else an_im x r AND NOT m)\<rparr>)),
      fm10000MapEplLaneToSerdes = (\<lambda>epl lane. (FM_OK, 4 * epl + lane))\<rparr>"

text \<open>
  The switch of the examples on these collaborators: the machine of handle 20 runs, two
  event records are free and every interrupt is masked.
\<close>

definition world_stateful :: "sm_hw_example world" where
  "world_stateful =
     \<lparr>portExt = portExt world_example, portPtr = portPtr world_example,
      portAttr = portAttr world_example, laneExt = laneExt world_example,
      calls = [],
      ext = \<lparr>running = (\<lambda>h. h = 20), free_records = 2, an_im = (\<lambda>r. 0xFFFFFFFF)\<rparr>\<rparr>"

text \<open>
  The module-state bits of the examples, a platform library whose EEPROM read succeeds
  and leaves the buffer as it is, and a switch with two SFP+ ports: at index 0 an empty
  cage, at index 1 a module that is present, not enabled, with a valid cached EEPROM and
  a configuration retry pending.
\<close>

definition plat_consts_example :: plat_consts where
  "plat_consts_example =
     \<lparr>FM_PLAT_XCVR_PRESENT = 0x1, FM_PLAT_XCVR_ENABLE = 0x2, FM_PLAT_XCVR_RXLOS = 0x4,
      FM_PLAT_XCVR_TXFAULT = 0x8, FM_PLAT_XCVR_INTR = 0x10\<rparr>"

definition plat_lib_example :: plat_lib where
  "plat_lib_example =
     \<lparr>fmPlatformXcvrEepromRead = (\<lambda>p buf. (FM_OK, buf)),
      fmPlatformXcvrEepromIsBaseCsumValid = (\<lambda>buf. True),
      fmPlatformXcvrEepromIsExtCsumValid = (\<lambda>buf. True),
      fmPlatformXcvrEepromGetType = (\<lambda>buf. FM_PLATFORM_XCVR_TYPE_KNOWN 1),
      fmPlatformXcvrEepromGetLen = (\<lambda>buf. 3),
      fmPlatformXcvrIs1000BaseT = (\<lambda>buf. False),
      fmPlatformXcvrIs10G1G = (\<lambda>buf. False),
      fmPlatformXcvrMemWrite = (\<lambda>p dev off data. FM_OK),
      fmPlatformPhyEnable1000BaseTAutoNeg = (\<lambda>p en. FM_OK),
      fmGetPortAttributeV2_AUTONEG = (\<lambda>p. (FM_OK, FM_PORT_AUTONEG_NONE))\<rparr>"

definition cfgs_example :: "fm_platformCfgPort list" where
  "cfgs_example =
     [\<lparr>cfgPort = 1, intfType = FM_PLAT_INTF_TYPE_SFPP, hwResourceId = 0\<rparr>,
      \<lparr>cfgPort = 2, intfType = FM_PLAT_INTF_TYPE_SFPP, hwResourceId = 1\<rparr>]"

definition xcvr_absent_example :: fm_platXcvrInfo where
  "xcvr_absent_example =
     \<lparr>modState = 0, present = False, xcvrEthMode = FM_ETH_MODE_10GBASE_KR, anEnabled = False,
      xcvrType = FM_PLATFORM_XCVR_TYPE_NOT_PRESENT, cableLength = 0, eeprom = [0xFF, 0xFF],
      eepromBaseValid = False, eepromExtValid = False, eepromReadRetries = 0,
      configRetries = 0\<rparr>"

definition xcvr_present_example :: fm_platXcvrInfo where
  "xcvr_present_example =
     \<lparr>modState = 0x1, present = True, xcvrEthMode = FM_ETH_MODE_10GBASE_KR, anEnabled = False,
      xcvrType = FM_PLATFORM_XCVR_TYPE_KNOWN 1, cableLength = 3, eeprom = [0x03, 0x04],
      eepromBaseValid = True, eepromExtValid = True, eepromReadRetries = 0,
      configRetries = 4\<rparr>"


section \<open>Properties of the event dispatcher\<close>

lemma FM_GET_BIT_iff: "FM_GET_BIT v pos = bit v pos"
  by (simp add: FM_GET_BIT_def bit_iff_odd_drop_bit and_one_eq odd_iff_mod_2_eq_one)

lemma chain_append:
  "abort_on_err (deliver_in_order d xs) (deliver_in_order d evs) = deliver_in_order d (xs @ evs)"
proof (rule ext)
  fix w
  show "abort_on_err (deliver_in_order d xs) (deliver_in_order d evs) w =
        deliver_in_order d (xs @ evs) w"
  proof (induction xs arbitrary: w)
    case Nil
    show ?case by (simp add: abort_on_err_def)
  next
    case (Cons x xs)
    then show ?case
      by (cases "d x w") (simp add: abort_on_err_def)
  qed
qed

lemma chain_last:
  "if_pending anIp pos (d ev) = deliver_in_order d (if bit anIp pos then [ev] else [])"
  by (rule ext) (simp add: if_pending_def FM_GET_BIT_iff split: prod.splits)

lemma pending_events_Nil: "pending_events b anIp [] = []"
  by (simp add: pending_events_def)

lemma pending_events_Cons:
  "pending_events b anIp ((x, ev) # scan) =
   (if bit anIp (b x) then [ev] else []) @ pending_events b anIp scan"
  by (simp add: pending_events_def)

lemma delivered_events_append [simp]:
  "delivered_events (cs @ ds) = delivered_events cs @ delivered_events ds"
  by (induction cs rule: delivered_events.induct) simp_all

lemma send_an_event_calls:
  "calls (snd (send_an_event E smt port ev w)) =
   calls w @ [Call_fmNotifyStateMachineEvent (anSmHandle (portExt w port))
      \<lparr>ev_smType = smt, eventId = ev, dontSaveRecord = False\<rparr>
      ((eventInfo (portExt w port))\<lparr>regLockTaken := False\<rparr>) port]"
  by (simp add: send_an_event_def call_fmNotifyStateMachineEvent_def Let_def)

lemma NotifyClause73Events_chain:
  "NotifyClause73Events E b port anIp =
     deliver_in_order (send_an_event E FM10000_CLAUSE73_AN_STATE_MACHINE port)
       (pending_events b anIp an73_scan)"
  unfolding NotifyClause73Events_def Let_def chain_last chain_append
    an73_scan_def pending_events_Cons pending_events_Nil
  by simp

lemma NotifyClause37Events_chain:
  "NotifyClause37Events E b port anIp =
     deliver_in_order (send_an_event E FM10000_CLAUSE37_AN_STATE_MACHINE port)
       (pending_events b anIp an37_scan_source)"
  unfolding NotifyClause37Events_def Let_def chain_last chain_append
    an37_scan_source_def pending_events_Cons pending_events_Nil
  by simp

lemma send_an_event_unfold:
  "send_an_event E smt port ev w =
     (let ui = (eventInfo (portExt w port))\<lparr>regLockTaken := False\<rparr>;
          ei = \<lparr>ev_smType = smt, eventId = ev, dontSaveRecord = False\<rparr>;
          r = fmNotifyStateMachineEvent E (anSmHandle (portExt w port)) ei ui port (ext w)
      in (fst r,
          w\<lparr>portExt := (portExt w)(port := (portExt w port)\<lparr>eventInfo := ui\<rparr>),
            calls := calls w @ [Call_fmNotifyStateMachineEvent (anSmHandle (portExt w port)) ei ui port],
            ext := snd r\<rparr>))"
  by (simp add: send_an_event_def call_fmNotifyStateMachineEvent_def Let_def)

lemma deliver_in_order_framework:
  assumes "anSmHandle (portExt w port) = h"
    and "(eventInfo (portExt w port))\<lparr>regLockTaken := False\<rparr> = ui"
  shows "fst (deliver_in_order (send_an_event E smt port) evs w) =
           fst (sm_deliveries E h smt ui port evs (ext w)) \<and>
         calls (snd (deliver_in_order (send_an_event E smt port) evs w)) =
           calls w @ fst (snd (sm_deliveries E h smt ui port evs (ext w))) \<and>
         ext (snd (deliver_in_order (send_an_event E smt port) evs w)) =
           snd (snd (sm_deliveries E h smt ui port evs (ext w)))"
  using assms
proof (induction evs arbitrary: w)
  case Nil
  show ?case by simp
next
  case (Cons e es)
  define ei where "ei = \<lparr>ev_smType = smt, eventId = e, dontSaveRecord = False\<rparr>"
  define r where "r = fmNotifyStateMachineEvent E h ei ui port (ext w)"
  define w' where "w' = w\<lparr>portExt := (portExt w)(port := (portExt w port)\<lparr>eventInfo := ui\<rparr>),
      calls := calls w @ [Call_fmNotifyStateMachineEvent h ei ui port], ext := snd r\<rparr>"
  have s: "send_an_event E smt port e w = (fst r, w')"
    unfolding send_an_event_unfold Let_def Cons.prems w'_def r_def ei_def by simp
  have h': "anSmHandle (portExt w' port) = h"
    using Cons.prems(1) by (simp add: w'_def)
  have ui': "(eventInfo (portExt w' port))\<lparr>regLockTaken := False\<rparr> = ui"
    using Cons.prems(2) by (auto simp: w'_def)
  have c: "calls w' = calls w @ [Call_fmNotifyStateMachineEvent h ei ui port]" "ext w' = snd r"
    by (simp_all add: w'_def)
  show ?case
  proof (cases "fst r = FM_OK")
    case False
    then show ?thesis
      by (simp add: s c Let_def ei_def [symmetric] r_def [symmetric])
  next
    case True
    from Cons.IH [OF h' ui'] True show ?thesis
      by (simp add: s c Let_def ei_def [symmetric] r_def [symmetric] case_prod_beta)
  qed
qed

text \<open>
  Claim C3. For every port, every interrupt-pending mask \<open>anIp\<close>, every layout of the
  register and every behaviour of the state-machine framework, \<^verbatim>\<open>NotifyClause73Events\<close>
  hands to \<^verbatim>\<open>fmNotifyStateMachineEvent\<close>, for the port's autonegotiation machine
  (\<^verbatim>\<open>portExt->anSmHandle\<close>, Clause 73 type), the events of the pending bits among
  AbilityDetect, AcknowledgeDetect, CompleteAcknowledge, NextPageWait, AnGoodCheck, AnGood
  and TransmitDisable: one delivery per pending bit, in that order and each bit with its
  own event, every delivery on the framework state the one before it left, ending at the
  first delivery whose status is not \<^verbatim>\<open>FM_OK\<close>. The status returned is the status of the
  last delivery made, the log of calls grows by exactly these deliveries, and the state
  of the framework afterwards is the one they leave.
\<close>

theorem notify_clause73_events_in_order:
  "fst (NotifyClause73Events E b port anIp w) =
     fst (sm_deliveries E (anSmHandle (portExt w port)) FM10000_CLAUSE73_AN_STATE_MACHINE
            ((eventInfo (portExt w port))\<lparr>regLockTaken := False\<rparr>) port
            (pending_events b anIp an73_scan) (ext w)) \<and>
   calls (snd (NotifyClause73Events E b port anIp w)) =
     calls w @
     fst (snd (sm_deliveries E (anSmHandle (portExt w port)) FM10000_CLAUSE73_AN_STATE_MACHINE
                 ((eventInfo (portExt w port))\<lparr>regLockTaken := False\<rparr>) port
                 (pending_events b anIp an73_scan) (ext w))) \<and>
   ext (snd (NotifyClause73Events E b port anIp w)) =
     snd (snd (sm_deliveries E (anSmHandle (portExt w port)) FM10000_CLAUSE73_AN_STATE_MACHINE
                 ((eventInfo (portExt w port))\<lparr>regLockTaken := False\<rparr>) port
                 (pending_events b anIp an73_scan) (ext w)))"
  unfolding NotifyClause73Events_chain
  by (rule deliver_in_order_framework [OF refl refl])

lemma pending_example_73:
  "pending_events an_ip_layout_example 0x23 an73_scan =
     [FM10000_AN_EVENT_ABILITY_DETECT_IND, FM10000_AN_EVENT_ACK_DETECT_IND,
      FM10000_AN_EVENT_GOOD_IND]"
  by (simp add: pending_events_def an73_scan_def)

lemma pending_example_73_four:
  "pending_events an_ip_layout_example 0x33 an73_scan =
     [FM10000_AN_EVENT_ABILITY_DETECT_IND, FM10000_AN_EVENT_ACK_DETECT_IND,
      FM10000_AN_EVENT_GOOD_CHECK_IND, FM10000_AN_EVENT_GOOD_IND]"
  by (simp add: pending_events_def an73_scan_def)

text \<open>
  On the Clause 73 port of the example, with a framework that has two free event records
  and with AbilityDetect, AcknowledgeDetect, AnGoodCheck and AnGood pending together
  (bits 0, 1, 4 and 5 of the example layout): the first two events are delivered, the
  third delivery fails for want of a record, and nothing is delivered for AnGood.
\<close>

theorem notify_clause73_events_in_order_witness:
  "fst (NotifyClause73Events externals_stateful an_ip_layout_example 1 0x33 world_stateful) =
     FM_ERR_NO_MEM \<and>
   delivered_events (calls (snd (NotifyClause73Events externals_stateful an_ip_layout_example 1
      0x33 world_stateful))) =
     [(20, FM10000_CLAUSE73_AN_STATE_MACHINE, FM10000_AN_EVENT_ABILITY_DETECT_IND),
      (20, FM10000_CLAUSE73_AN_STATE_MACHINE, FM10000_AN_EVENT_ACK_DETECT_IND),
      (20, FM10000_CLAUSE73_AN_STATE_MACHINE, FM10000_AN_EVENT_GOOD_CHECK_IND)] \<and>
   free_records (ext (snd (NotifyClause73Events externals_stateful an_ip_layout_example 1 0x33
      world_stateful))) = 0"
proof -
  have w: "calls world_stateful = []" "anSmHandle (portExt world_stateful 1) = 20"
    "free_records (ext world_stateful) = 2"
    by (simp_all add: world_stateful_def world_example_def port_example_def)
  have d: "sm_deliveries externals_stateful 20 FM10000_CLAUSE73_AN_STATE_MACHINE ui 1
      [FM10000_AN_EVENT_ABILITY_DETECT_IND, FM10000_AN_EVENT_ACK_DETECT_IND,
       FM10000_AN_EVENT_GOOD_CHECK_IND, FM10000_AN_EVENT_GOOD_IND] (ext world_stateful) =
     (FM_ERR_NO_MEM,
      [Call_fmNotifyStateMachineEvent 20 \<lparr>ev_smType = FM10000_CLAUSE73_AN_STATE_MACHINE,
         eventId = FM10000_AN_EVENT_ABILITY_DETECT_IND, dontSaveRecord = False\<rparr> ui 1,
       Call_fmNotifyStateMachineEvent 20 \<lparr>ev_smType = FM10000_CLAUSE73_AN_STATE_MACHINE,
         eventId = FM10000_AN_EVENT_ACK_DETECT_IND, dontSaveRecord = False\<rparr> ui 1,
       Call_fmNotifyStateMachineEvent 20 \<lparr>ev_smType = FM10000_CLAUSE73_AN_STATE_MACHINE,
         eventId = FM10000_AN_EVENT_GOOD_CHECK_IND, dontSaveRecord = False\<rparr> ui 1],
      (ext world_stateful)\<lparr>free_records := 0\<rparr>)" for ui
    by (simp add: externals_stateful_def Let_def w)
  from notify_clause73_events_in_order [of externals_stateful an_ip_layout_example 1 "0x33"
      world_stateful]
  show ?thesis
    unfolding pending_example_73_four w d by simp
qed

lemma bit_4096_example:
  "pending_events an_ip_layout_example 4096 an37_scan_source = [FM10000_AN_EVENT_GOOD_CHECK_IND]"
  by (simp add: pending_events_def an37_scan_source_def)

text \<open>
  Claim C4 (the source at the failing input). On the Clause 37 port of the example, with
  only the NextPageWait bit pending (bit 12 of the example layout, \<open>anIp = 4096\<close>),
  \<^verbatim>\<open>NotifyClause37Events\<close> delivers one event, and it is
  \<^verbatim>\<open>FM10000_AN_EVENT_GOOD_CHECK_IND\<close>, not \<^verbatim>\<open>FM10000_AN_EVENT_NEXT_PAGE_WAIT_IND\<close>.
\<close>

theorem notify_clause37_next_page_wait_sends_good_check:
  "delivered_events (calls (snd (NotifyClause37Events externals_ok an_ip_layout_example 2 4096
      world_example))) =
     [(20, FM10000_CLAUSE37_AN_STATE_MACHINE, FM10000_AN_EVENT_GOOD_CHECK_IND)] \<and>
   pending_events an_ip_layout_example 4096 an37_scan = [FM10000_AN_EVENT_NEXT_PAGE_WAIT_IND]"
  unfolding NotifyClause37Events_chain bit_4096_example
  by (simp add: send_an_event_def call_fmNotifyStateMachineEvent_def Let_def externals_ok_def
      world_example_def port_example_def pending_events_def an37_scan_def)

lemma mask_calls_append [simp]: "mask_calls (cs @ ds) = mask_calls cs @ mask_calls ds"
  by (induction cs rule: mask_calls.induct) simp_all

lemma deliver_in_order_mask_calls:
  "mask_calls (calls (snd (deliver_in_order (send_an_event E smt port) evs w))) =
   mask_calls (calls w)"
proof (induction evs arbitrary: w)
  case Nil
  show ?case by simp
next
  case (Cons e es)
  obtain st w' where r: "send_an_event E smt port e w = (st, w')"
    by (cases "send_an_event E smt port e w")
  have "mask_calls (calls w') = mask_calls (calls w)"
    using send_an_event_calls [of E smt port e w] r by simp
  with r Cons.IH [of w'] show ?case by simp
qed

lemma AnEventHandler_dispatch_mask_calls:
  "mask_calls (calls (snd (AnEventHandler_dispatch E b epl lane anIp w))) = mask_calls (calls w)"
  by (simp add: AnEventHandler_dispatch_def NotifyClause73Events_chain NotifyClause37Events_chain
      deliver_in_order_mask_calls Let_def split: prod.splits option.splits)

text \<open>
  Claim C8. Whatever the collaborators return, every run of \<^verbatim>\<open>fm10000AnEventHandler\<close>
  ends with one call \<^verbatim>\<open>MaskUINT32(sw, FM10000_AN_IM(epl, lane), anIp, FALSE)\<close>, which unmasks
  the consumed bits: it is the last call of the run and the only register-mask call
  the run adds, on every path (the EPL and lane map to no SerDes, the SerDes has no lane,
  the lane has no port, the port is bound to no state machine, the chain of events
  succeeds, a delivery fails and ends the chain). The status the handler returns is the
  status of that call, and the state of the hardware the handler leaves is the state
  that call leaves, applied to the state at the end of the dispatch.
\<close>

theorem an_event_handler_rearms_mask:
  "last (calls (snd (fm10000AnEventHandler E b epl lane anIp w))) =
     Call_MaskUINT32 (FM10000_AN_IM epl lane) anIp False \<and>
   mask_calls (calls (snd (fm10000AnEventHandler E b epl lane anIp w))) =
     mask_calls (calls w) @ [(FM10000_AN_IM epl lane, anIp, False)] \<and>
   fst (fm10000AnEventHandler E b epl lane anIp w) =
     fst (MaskUINT32 E (FM10000_AN_IM epl lane) anIp False
            (ext (snd (AnEventHandler_dispatch E b epl lane anIp w)))) \<and>
   ext (snd (fm10000AnEventHandler E b epl lane anIp w)) =
     snd (MaskUINT32 E (FM10000_AN_IM epl lane) anIp False
            (ext (snd (AnEventHandler_dispatch E b epl lane anIp w))))"
  by (simp add: fm10000AnEventHandler_def call_MaskUINT32_def Let_def case_prod_beta
      AnEventHandler_dispatch_mask_calls)

lemma dispatch_example_no_lane:
  "AnEventHandler_dispatch externals_stateful an_ip_layout_example 1 1 0x33 world_stateful =
     (FM_OK, world_stateful)"
  by (simp add: AnEventHandler_dispatch_def externals_stateful_def world_stateful_def
      world_example_def)

lemma dispatch_example_chain:
  "AnEventHandler_dispatch externals_stateful an_ip_layout_example 0 1 anIp world_stateful =
     NotifyClause73Events externals_stateful an_ip_layout_example 1 anIp
       (world_stateful\<lparr>portExt := (portExt world_stateful)
          (1 := (portExt world_stateful 1)\<lparr>eventInfo :=
             (eventInfo (portExt world_stateful 1))\<lparr>info := Info_physLane 1\<rparr>\<rparr>)\<rparr>)"
  by (simp add: AnEventHandler_dispatch_def externals_stateful_def world_stateful_def
      world_example_def port_example_def Let_def)

lemma an_im_after_chain_example:
  "an_im (ext (snd (NotifyClause73Events externals_stateful an_ip_layout_example 1 anIp w))) =
     an_im (ext w)"
proof -
  have "an_im (snd (snd (sm_deliveries externals_stateful h smt ui p evs x))) = an_im x"
    for h smt ui p evs x
    by (induction evs arbitrary: x)
       (simp_all add: externals_stateful_def Let_def case_prod_beta)
  then show ?thesis
    using deliver_in_order_framework [OF refl refl, of externals_stateful
        FM10000_CLAUSE73_AN_STATE_MACHINE 1 "pending_events an_ip_layout_example anIp an73_scan" w]
    by (simp add: NotifyClause73Events_chain)
qed

text \<open>
  On the example switch, whose interrupts are all masked at first. Lane 1 of EPL 1 is
  SerDes 5, which has no lane: the run is the one register-mask call, and the bits of
  \<open>anIp\<close> are cleared in the mask register of that lane. Lane 1 of EPL 0 belongs to the
  Clause 73 port: with \<open>anIp = 0x3\<close> the chain of two events succeeds, with \<open>0x33\<close> the
  third delivery fails and ends the chain; in both runs the bits of \<open>anIp\<close> are cleared
  in the mask register afterwards and the status is that of the register-mask call.
\<close>

theorem an_event_handler_rearms_mask_witness:
  "calls (snd (fm10000AnEventHandler externals_stateful an_ip_layout_example 1 1 0x33
      world_stateful)) = [Call_MaskUINT32 (FM10000_AN_IM 1 1) 0x33 False] \<and>
   an_im (ext (snd (fm10000AnEventHandler externals_stateful an_ip_layout_example 1 1 0x33
      world_stateful))) (FM10000_AN_IM 1 1) = 0xFFFFFFCC \<and>
   an_im (ext (snd (fm10000AnEventHandler externals_stateful an_ip_layout_example 0 1 0x3
      world_stateful))) (FM10000_AN_IM 0 1) = 0xFFFFFFFC \<and>
   fst (NotifyClause73Events externals_stateful an_ip_layout_example 1 0x33 world_stateful) =
     FM_ERR_NO_MEM \<and>
   fst (fm10000AnEventHandler externals_stateful an_ip_layout_example 0 1 0x33 world_stateful) =
     FM_OK \<and>
   an_im (ext (snd (fm10000AnEventHandler externals_stateful an_ip_layout_example 0 1 0x33
      world_stateful))) (FM10000_AN_IM 0 1) = 0xFFFFFFCC \<and>
   mask_calls (calls (snd (fm10000AnEventHandler externals_stateful an_ip_layout_example 0 1 0x33
      world_stateful))) = [(FM10000_AN_IM 0 1, 0x33, False)]"
proof -
  have w: "calls world_stateful = []" "an_im (ext world_stateful) = (\<lambda>r. 0xFFFFFFFF)"
    by (simp_all add: world_stateful_def)
  have m: "MaskUINT32 externals_stateful r msk False x =
      (FM_OK, x\<lparr>an_im := (an_im x)(r := an_im x r AND NOT msk)\<rparr>)" for r msk x
    by (simp add: externals_stateful_def)
  have k: "an_im (ext (snd (AnEventHandler_dispatch externals_stateful an_ip_layout_example 0 1
      anIp world_stateful))) = (\<lambda>r. 0xFFFFFFFF)" for anIp
    unfolding dispatch_example_chain an_im_after_chain_example by (simp add: w)
  have c1: "calls (snd (fm10000AnEventHandler externals_stateful an_ip_layout_example 1 1 0x33
      world_stateful)) = [Call_MaskUINT32 (FM10000_AN_IM 1 1) 0x33 False]"
    by (simp add: fm10000AnEventHandler_def dispatch_example_no_lane call_MaskUINT32_def Let_def w)
  have f: "fst (NotifyClause73Events externals_stateful an_ip_layout_example 1 0x33
      world_stateful) = FM_ERR_NO_MEM"
    unfolding NotifyClause73Events_chain pending_example_73_four
    by (simp add: send_an_event_unfold Let_def externals_stateful_def world_stateful_def)
  note h1 = an_event_handler_rearms_mask [of externals_stateful an_ip_layout_example 1 1 "0x33"
      world_stateful, unfolded dispatch_example_no_lane m]
  note h2 = an_event_handler_rearms_mask [of externals_stateful an_ip_layout_example 0 1 "0x3"
      world_stateful, unfolded m k]
  note h3 = an_event_handler_rearms_mask [of externals_stateful an_ip_layout_example 0 1 "0x33"
      world_stateful, unfolded m k]
  have c2: "an_im (ext (snd (fm10000AnEventHandler externals_stateful an_ip_layout_example 1 1
      0x33 world_stateful))) (FM10000_AN_IM 1 1) = 0xFFFFFFCC"
    using h1 by (simp add: w)
  have c3: "an_im (ext (snd (fm10000AnEventHandler externals_stateful an_ip_layout_example 0 1
      0x3 world_stateful))) (FM10000_AN_IM 0 1) = 0xFFFFFFFC"
    using h2 by simp
  have c4: "fst (fm10000AnEventHandler externals_stateful an_ip_layout_example 0 1 0x33
      world_stateful) = FM_OK"
    using h3 by simp
  have c5: "an_im (ext (snd (fm10000AnEventHandler externals_stateful an_ip_layout_example 0 1
      0x33 world_stateful))) (FM10000_AN_IM 0 1) = 0xFFFFFFCC"
    using h3 by simp
  have c6: "mask_calls (calls (snd (fm10000AnEventHandler externals_stateful an_ip_layout_example
      0 1 0x33 world_stateful))) = [(FM10000_AN_IM 0 1, 0x33, False)]"
    using h3 by (simp add: w)
  from c1 c2 c3 f c4 c5 c6 show ?thesis by blast
qed


section \<open>Properties of the restart on a new configuration\<close>


lemma IsPortAutonegReady_ready_iff:
  "(fst (fm10000IsPortAutonegReady port ethMode anMode w) = FM_OK \<and>
    fst (snd (fm10000IsPortAutonegReady port ethMode anMode w))) =
   ((portType (portPtr w port) = FM_PORT_TYPE_PHYSICAL \<or>
     (portType (portPtr w port) = FM_PORT_TYPE_CPU \<and> port \<noteq> 0)) \<and>
    ring (portExt w port) = FM10000_SERDES_RING_EPL \<and>
    (anMode = FM_PORT_AUTONEG_CLAUSE_73 \<and> ethMode = FM_ETH_MODE_AN_73 \<or>
     (anMode = FM_PORT_AUTONEG_CLAUSE_37 \<or> anMode = FM_PORT_AUTONEG_SGMII) \<and>
     (ethMode = FM_ETH_MODE_1000BASE_X \<or> ethMode = FM_ETH_MODE_SGMII)))"
  by (auto simp: fm10000IsPortAutonegReady_def Let_def)

lemma IsPortAutonegReady_type:
  "fst (fm10000IsPortAutonegReady port ethMode anMode w) = FM_OK \<Longrightarrow>
   fst (snd (fm10000IsPortAutonegReady port ethMode anMode w)) \<Longrightarrow>
   snd (snd (fm10000IsPortAutonegReady port ethMode anMode w)) =
     (if anMode = FM_PORT_AUTONEG_CLAUSE_73 then FM10000_CLAUSE73_AN_STATE_MACHINE
      else FM10000_CLAUSE37_AN_STATE_MACHINE) \<and>
   (anMode = FM_PORT_AUTONEG_CLAUSE_73 \<or> anMode = FM_PORT_AUTONEG_CLAUSE_37 \<or>
    anMode = FM_PORT_AUTONEG_SGMII)"
  by (auto simp: fm10000IsPortAutonegReady_def Let_def split: if_splits)

lemma AnRestart_not_ready:
  "\<not> (fst (fm10000IsPortAutonegReady port ethMode anMode w) = FM_OK \<and>
      fst (snd (fm10000IsPortAutonegReady port ethMode anMode w))) \<Longrightarrow>
   fm10000AnRestartOnNewConfig E c port ethMode anMode basepage nextPgs w =
     (fst (fm10000IsPortAutonegReady port ethMode anMode w), w)"
  by (auto simp: fm10000AnRestartOnNewConfig_def split: prod.splits)

lemma eventInfo_overwritten:
  "(r :: fm10000_portSmEventInfo)\<lparr>info := a, regLockTaken := l\<rparr> = \<lparr>regLockTaken = l, info = a\<rparr>"
  by (cases r) simp

lemma AnSendConfigEvent_world:
  "snd (fm10000AnSendConfigEvent E port evId mode basepage nextPgs w) =
     w\<lparr>portExt := (portExt w)
         (port := (portExt w port)\<lparr>eventInfo :=
            \<lparr>regLockTaken = False,
             info = Info_anConfig \<lparr>autoNegMode = mode, autoNegBasePage = basepage,
                                    autoNegNextPages = nextPgs\<rparr>\<rparr>\<rparr>),
       calls := calls w @
         [Call_fmNotifyStateMachineEvent (smHandle (portExt w port))
            \<lparr>ev_smType = smType (portExt w port), eventId = evId, dontSaveRecord = False\<rparr>
            \<lparr>regLockTaken = False,
             info = Info_anConfig \<lparr>autoNegMode = mode, autoNegBasePage = basepage,
                                    autoNegNextPages = nextPgs\<rparr>\<rparr> port],
       ext := snd (fmNotifyStateMachineEvent E (smHandle (portExt w port))
            \<lparr>ev_smType = smType (portExt w port), eventId = evId, dontSaveRecord = False\<rparr>
            \<lparr>regLockTaken = False,
             info = Info_anConfig \<lparr>autoNegMode = mode, autoNegBasePage = basepage,
                                    autoNegNextPages = nextPgs\<rparr>\<rparr> port (ext w))\<rparr>"
  by (simp add: fm10000AnSendConfigEvent_def call_fmNotifyStateMachineEvent_def Let_def
      eventInfo_overwritten)

lemma AnSendConfigEvent_status:
  "fst (fm10000AnSendConfigEvent E port evId mode basepage nextPgs w) =
     fst (fmNotifyStateMachineEvent E (smHandle (portExt w port))
            \<lparr>ev_smType = smType (portExt w port), eventId = evId, dontSaveRecord = False\<rparr>
            \<lparr>regLockTaken = False,
             info = Info_anConfig \<lparr>autoNegMode = mode, autoNegBasePage = basepage,
                                    autoNegNextPages = nextPgs\<rparr>\<rparr> port (ext w))"
  by (simp add: fm10000AnSendConfigEvent_def call_fmNotifyStateMachineEvent_def Let_def
      eventInfo_overwritten)

lemma AnRestart_switch:
  assumes ok: "fst (fm10000IsPortAutonegReady port ethMode anMode w) = FM_OK"
    and rdy: "fst (snd (fm10000IsPortAutonegReady port ethMode anMode w))"
    and diff: "snd (snd (fm10000IsPortAutonegReady port ethMode anMode w)) \<noteq> anSmType (portExt w port)"
    and start: "fst (fmStartStateMachine E (anSmHandle (portExt w port))
        (snd (snd (fm10000IsPortAutonegReady port ethMode anMode w))) FM10000_AN_STATE_DISABLED
        (AnRestart_state_at_start E port w)) = FM_OK"
  shows "calls (snd (fm10000AnRestartOnNewConfig E c port ethMode anMode basepage nextPgs w)) =
     calls w @
     (if anSmType (portExt w port) \<noteq> FM_SMTYPE_UNSPECIFIED
      then [an_config_call (portExt w port) FM10000_PORT_EVENT_AN_DISABLE_REQ
              (autoNegMode (portAttr w port)) (autoNegBasePage (portAttr w port))
              (autoNegNextPages (portAttr w port)) port,
            Call_fmStopStateMachine (anSmHandle (portExt w port))]
      else []) @
     [Call_fmStartStateMachine (anSmHandle (portExt w port))
        (snd (snd (fm10000IsPortAutonegReady port ethMode anMode w))) FM10000_AN_STATE_DISABLED,
      an_config_call (portExt w port) FM10000_PORT_EVENT_AN_CONFIG_REQ anMode basepage nextPgs port] \<and>
   anSmType (portExt (snd (fm10000AnRestartOnNewConfig E c port ethMode anMode basepage nextPgs w)) port) =
     snd (snd (fm10000IsPortAutonegReady port ethMode anMode w)) \<and>
   anInterruptMask (portExt (snd (fm10000AnRestartOnNewConfig E c port ethMode anMode basepage nextPgs w)) port) =
     (if anMode = FM_PORT_AUTONEG_CLAUSE_73 then FM10000_AN73_INT_MASK c else FM10000_AN37_INT_MASK c) \<and>
   (fst (fm10000AnRestartOnNewConfig E c port ethMode anMode basepage nextPgs w),
    ext (snd (fm10000AnRestartOnNewConfig E c port ethMode anMode basepage nextPgs w))) =
     fmNotifyStateMachineEvent E (smHandle (portExt w port))
       \<lparr>ev_smType = smType (portExt w port), eventId = FM10000_PORT_EVENT_AN_CONFIG_REQ,
        dontSaveRecord = False\<rparr>
       \<lparr>regLockTaken = False,
        info = Info_anConfig \<lparr>autoNegMode = anMode, autoNegBasePage = basepage,
                               autoNegNextPages = nextPgs\<rparr>\<rparr>
       port
       (snd (fmStartStateMachine E (anSmHandle (portExt w port))
               (snd (snd (fm10000IsPortAutonegReady port ethMode anMode w)))
               FM10000_AN_STATE_DISABLED (AnRestart_state_at_start E port w)))"
proof -
  obtain newT where r: "fm10000IsPortAutonegReady port ethMode anMode w = (FM_OK, True, newT)"
    using ok rdy by (cases "fm10000IsPortAutonegReady port ethMode anMode w") auto
  from IsPortAutonegReady_type [OF ok rdy]
  have m: "anMode = FM_PORT_AUTONEG_CLAUSE_73 \<or> anMode = FM_PORT_AUTONEG_CLAUSE_37 \<or>
    anMode = FM_PORT_AUTONEG_SGMII" by simp
  from diff r have d: "newT \<noteq> anSmType (portExt w port)" by simp
  from start r have s: "fst (fmStartStateMachine E (anSmHandle (portExt w port)) newT
     FM10000_AN_STATE_DISABLED (AnRestart_state_at_start E port w)) = FM_OK" by simp
  show ?thesis
  proof (cases "anSmType (portExt w port) = FM_SMTYPE_UNSPECIFIED")
    case True
    then have x: "AnRestart_state_at_start E port w = ext w"
      by (simp add: AnRestart_state_at_start_def)
    from s have s': "fst (fmStartStateMachine E (anSmHandle (portExt w port)) newT
     FM10000_AN_STATE_DISABLED (ext w)) = FM_OK" by (simp add: x)
    show ?thesis
      using m d True
      by (auto simp: r x fm10000AnRestartOnNewConfig_def AnRestart_switch_sm_def abort_on_err_def
          AnSendConfigEvent_world AnSendConfigEvent_status call_fmStopStateMachine_def
          call_fmStartStateMachine_def Let_def s' an_config_call_def case_prod_beta prod_eq_iff)
  next
    case False
    define x where "x = snd (fmStopStateMachine E (anSmHandle (portExt w port))
                (snd (fmNotifyStateMachineEvent E (smHandle (portExt w port))
                   \<lparr>ev_smType = smType (portExt w port),
                    eventId = FM10000_PORT_EVENT_AN_DISABLE_REQ, dontSaveRecord = False\<rparr>
                   \<lparr>regLockTaken = False,
                    info = Info_anConfig \<lparr>autoNegMode = autoNegMode (portAttr w port),
                       autoNegBasePage = autoNegBasePage (portAttr w port),
                       autoNegNextPages = autoNegNextPages (portAttr w port)\<rparr>\<rparr>
                   port (ext w))))"
    have xs: "AnRestart_state_at_start E port w = x"
      using False by (simp add: AnRestart_state_at_start_def Let_def x_def)
    from s have s': "fst (fmStartStateMachine E (anSmHandle (portExt w port)) newT
     FM10000_AN_STATE_DISABLED x) = FM_OK" by (simp add: xs)
    show ?thesis
      unfolding xs
      using m d False
      by (auto simp: r fm10000AnRestartOnNewConfig_def AnRestart_switch_sm_def abort_on_err_def
          AnSendConfigEvent_world AnSendConfigEvent_status call_fmStopStateMachine_def
          call_fmStartStateMachine_def Let_def x_def [symmetric] s' an_config_call_def
          case_prod_beta prod_eq_iff)
  qed
qed


text \<open>
  Claim C2 (as amended). Let \<open>rd\<close> be what \<^verbatim>\<open>fm10000IsPortAutonegReady\<close> returns. The port is
  ready exactly when it is an ethernet port on the EPL ring and either the mode is
  Clause 73 with ethernet mode \<^verbatim>\<open>AN_73\<close>, or the mode is Clause 37 or SGMII with ethernet
  mode \<^verbatim>\<open>1000BASE_X\<close> or \<^verbatim>\<open>SGMII\<close>; the expected machine type is then the Clause 73 machine
  for Clause 73 and the Clause 37 machine otherwise. On a ready port whose expected type
  differs from the bound one, and when the \<^verbatim>\<open>fmStartStateMachine\<close> of this call succeeds
  (on the state of the framework in which it is made: after the disable event and the stop
  on a bound port), \<^verbatim>\<open>fm10000AnRestartOnNewConfig\<close> makes exactly these calls, in this order:
  if the port is bound to a state machine (\<^verbatim>\<open>anSmType\<close> is not \<^verbatim>\<open>FM_SMTYPE_UNSPECIFIED\<close>), one
  \<^verbatim>\<open>AN_DISABLE_REQ\<close> event carrying the port's current configuration and one
  \<^verbatim>\<open>fmStopStateMachine\<close>; then, bound or not, \<^verbatim>\<open>fmStartStateMachine\<close> with the new type in
  state \<^verbatim>\<open>DISABLED\<close> and one \<^verbatim>\<open>AN_CONFIG_REQ\<close> event carrying the new mode, base page and
  next pages. Afterwards the port is bound to the new type and its interrupt mask is
  the Clause 73 template for Clause 73 and the Clause 37 template for Clause 37 and
  SGMII; the status returned and the state of the framework are those of the
  \<^verbatim>\<open>AN_CONFIG_REQ\<close> delivery, made on the state the start left. On a port that is not ready
  the function returns the status of the readiness check and leaves the state as it was.
\<close>

theorem an_restart_on_new_config_rebinds:
  assumes "rd = fm10000IsPortAutonegReady port ethMode anMode w"
    and "r = fm10000AnRestartOnNewConfig E c port ethMode anMode basepage nextPgs w"
    and "pe = portExt w port"
    and "pa = portAttr w port"
  shows
   "((fst rd = FM_OK \<and> fst (snd rd)) =
       ((portType (portPtr w port) = FM_PORT_TYPE_PHYSICAL \<or>
         (portType (portPtr w port) = FM_PORT_TYPE_CPU \<and> port \<noteq> 0)) \<and>
        ring pe = FM10000_SERDES_RING_EPL \<and>
        (anMode = FM_PORT_AUTONEG_CLAUSE_73 \<and> ethMode = FM_ETH_MODE_AN_73 \<or>
         (anMode = FM_PORT_AUTONEG_CLAUSE_37 \<or> anMode = FM_PORT_AUTONEG_SGMII) \<and>
         (ethMode = FM_ETH_MODE_1000BASE_X \<or> ethMode = FM_ETH_MODE_SGMII)))) \<and>
    (fst rd = FM_OK \<and> fst (snd rd) \<longrightarrow>
       snd (snd rd) = (if anMode = FM_PORT_AUTONEG_CLAUSE_73 then FM10000_CLAUSE73_AN_STATE_MACHINE
                       else FM10000_CLAUSE37_AN_STATE_MACHINE)) \<and>
    (fst rd = FM_OK \<and> fst (snd rd) \<and> snd (snd rd) \<noteq> anSmType pe \<and>
     fst (fmStartStateMachine E (anSmHandle pe) (snd (snd rd)) FM10000_AN_STATE_DISABLED
            (AnRestart_state_at_start E port w)) = FM_OK \<longrightarrow>
       calls (snd r) =
         calls w @
         (if anSmType pe \<noteq> FM_SMTYPE_UNSPECIFIED
          then [an_config_call pe FM10000_PORT_EVENT_AN_DISABLE_REQ
                  (autoNegMode pa) (autoNegBasePage pa) (autoNegNextPages pa) port,
                Call_fmStopStateMachine (anSmHandle pe)]
          else []) @
         [Call_fmStartStateMachine (anSmHandle pe) (snd (snd rd)) FM10000_AN_STATE_DISABLED,
          an_config_call pe FM10000_PORT_EVENT_AN_CONFIG_REQ anMode basepage nextPgs port] \<and>
       anSmType (portExt (snd r) port) = snd (snd rd) \<and>
       anInterruptMask (portExt (snd r) port) =
         (if anMode = FM_PORT_AUTONEG_CLAUSE_73 then FM10000_AN73_INT_MASK c
          else FM10000_AN37_INT_MASK c) \<and>
       (fst r, ext (snd r)) =
         fmNotifyStateMachineEvent E (smHandle pe)
           \<lparr>ev_smType = smType pe, eventId = FM10000_PORT_EVENT_AN_CONFIG_REQ,
            dontSaveRecord = False\<rparr>
           \<lparr>regLockTaken = False,
            info = Info_anConfig \<lparr>autoNegMode = anMode, autoNegBasePage = basepage,
                                   autoNegNextPages = nextPgs\<rparr>\<rparr>
           port
           (snd (fmStartStateMachine E (anSmHandle pe) (snd (snd rd)) FM10000_AN_STATE_DISABLED
                   (AnRestart_state_at_start E port w)))) \<and>
    (\<not> (fst rd = FM_OK \<and> fst (snd rd)) \<longrightarrow> r = (fst rd, w))"
proof -
  have c1: "(fst rd = FM_OK \<and> fst (snd rd)) =
       ((portType (portPtr w port) = FM_PORT_TYPE_PHYSICAL \<or>
         (portType (portPtr w port) = FM_PORT_TYPE_CPU \<and> port \<noteq> 0)) \<and>
        ring pe = FM10000_SERDES_RING_EPL \<and>
        (anMode = FM_PORT_AUTONEG_CLAUSE_73 \<and> ethMode = FM_ETH_MODE_AN_73 \<or>
         (anMode = FM_PORT_AUTONEG_CLAUSE_37 \<or> anMode = FM_PORT_AUTONEG_SGMII) \<and>
         (ethMode = FM_ETH_MODE_1000BASE_X \<or> ethMode = FM_ETH_MODE_SGMII)))"
    unfolding assms by (rule IsPortAutonegReady_ready_iff)
  have c2: "snd (snd rd) = (if anMode = FM_PORT_AUTONEG_CLAUSE_73
      then FM10000_CLAUSE73_AN_STATE_MACHINE else FM10000_CLAUSE37_AN_STATE_MACHINE)"
    if "fst rd = FM_OK \<and> fst (snd rd)"
    using that unfolding assms using IsPortAutonegReady_type [of port ethMode anMode w] by blast
  have c3: "calls (snd r) =
         calls w @
         (if anSmType pe \<noteq> FM_SMTYPE_UNSPECIFIED
          then [an_config_call pe FM10000_PORT_EVENT_AN_DISABLE_REQ
                  (autoNegMode pa) (autoNegBasePage pa) (autoNegNextPages pa) port,
                Call_fmStopStateMachine (anSmHandle pe)]
          else []) @
         [Call_fmStartStateMachine (anSmHandle pe) (snd (snd rd)) FM10000_AN_STATE_DISABLED,
          an_config_call pe FM10000_PORT_EVENT_AN_CONFIG_REQ anMode basepage nextPgs port] \<and>
       anSmType (portExt (snd r) port) = snd (snd rd) \<and>
       anInterruptMask (portExt (snd r) port) =
         (if anMode = FM_PORT_AUTONEG_CLAUSE_73 then FM10000_AN73_INT_MASK c
          else FM10000_AN37_INT_MASK c) \<and>
       (fst r, ext (snd r)) =
         fmNotifyStateMachineEvent E (smHandle pe)
           \<lparr>ev_smType = smType pe, eventId = FM10000_PORT_EVENT_AN_CONFIG_REQ,
            dontSaveRecord = False\<rparr>
           \<lparr>regLockTaken = False,
            info = Info_anConfig \<lparr>autoNegMode = anMode, autoNegBasePage = basepage,
                                   autoNegNextPages = nextPgs\<rparr>\<rparr>
           port
           (snd (fmStartStateMachine E (anSmHandle pe) (snd (snd rd)) FM10000_AN_STATE_DISABLED
                   (AnRestart_state_at_start E port w)))"
    if h: "fst rd = FM_OK \<and> fst (snd rd) \<and> snd (snd rd) \<noteq> anSmType pe \<and>
     fst (fmStartStateMachine E (anSmHandle pe) (snd (snd rd)) FM10000_AN_STATE_DISABLED
            (AnRestart_state_at_start E port w)) = FM_OK"
  proof -
    note sw = AnRestart_switch [of port ethMode anMode w E c basepage nextPgs,
        folded assms(1) assms(2) assms(3) assms(4)]
    from h have h1: "fst rd = FM_OK" and h2: "fst (snd rd)"
      and h3: "snd (snd rd) \<noteq> anSmType pe"
      and h4: "fst (fmStartStateMachine E (anSmHandle pe) (snd (snd rd))
         FM10000_AN_STATE_DISABLED (AnRestart_state_at_start E port w)) = FM_OK"
      by blast+
    show ?thesis by (rule sw [OF h1 h2 h3 h4])
  qed
  have c4: "r = (fst rd, w)" if "\<not> (fst rd = FM_OK \<and> fst (snd rd))"
    using that unfolding assms by (rule AnRestart_not_ready)
  from c1 c2 c3 c4 show ?thesis by blast
qed

lemma ready_example_37:
  "fm10000IsPortAutonegReady 1 FM_ETH_MODE_1000BASE_X FM_PORT_AUTONEG_CLAUSE_37 world_stateful =
     (FM_OK, True, FM10000_CLAUSE37_AN_STATE_MACHINE)"
  by (simp add: fm10000IsPortAutonegReady_def world_stateful_def world_example_def
      port_example_def Let_def)

lemma ready_example_73:
  "fm10000IsPortAutonegReady 3 FM_ETH_MODE_AN_73 FM_PORT_AUTONEG_CLAUSE_73 world_example =
     (FM_OK, True, FM10000_CLAUSE73_AN_STATE_MACHINE)"
  by (simp add: fm10000IsPortAutonegReady_def world_example_def port_example_def Let_def)

text \<open>
  Port 1 of the example is bound to the Clause 73 machine, which runs on handle 20, and
  is asked for Clause 37 with ethernet mode \<^verbatim>\<open>1000BASE_X\<close>. The framework refuses to start a
  machine on a handle that runs one, so the start succeeds only because the old machine
  was stopped first. The run makes the four calls and sets the Clause 37 mask; the new
  machine runs and both event records are used. With ethernet mode \<^verbatim>\<open>AN_73\<close> the port is
  not ready for Clause 37 and nothing changes.
\<close>

theorem an_restart_on_new_config_rebinds_witness:
  "fm10000IsPortAutonegReady 1 FM_ETH_MODE_1000BASE_X FM_PORT_AUTONEG_CLAUSE_37 world_stateful =
     (FM_OK, True, FM10000_CLAUSE37_AN_STATE_MACHINE) \<and>
   anSmType (portExt world_stateful 1) = FM10000_CLAUSE73_AN_STATE_MACHINE \<and>
   fst (fmStartStateMachine externals_stateful 20 FM10000_CLAUSE37_AN_STATE_MACHINE
          FM10000_AN_STATE_DISABLED (ext world_stateful)) = FM_ERR_STATE_MACHINE_HANDLE \<and>
   fst (fmStartStateMachine externals_stateful 20 FM10000_CLAUSE37_AN_STATE_MACHINE
          FM10000_AN_STATE_DISABLED (AnRestart_state_at_start externals_stateful 1 world_stateful))
     = FM_OK \<and>
   calls (snd (fm10000AnRestartOnNewConfig externals_stateful an_consts_example 1
      FM_ETH_MODE_1000BASE_X FM_PORT_AUTONEG_CLAUSE_37 0x1 \<lparr>numPages = 0, nextPages = []\<rparr>
      world_stateful)) =
     [an_config_call (port_example FM10000_CLAUSE73_AN_STATE_MACHINE)
        FM10000_PORT_EVENT_AN_DISABLE_REQ FM_PORT_AUTONEG_CLAUSE_73 0x800001
        \<lparr>numPages = 0, nextPages = []\<rparr> 1,
      Call_fmStopStateMachine 20,
      Call_fmStartStateMachine 20 FM10000_CLAUSE37_AN_STATE_MACHINE FM10000_AN_STATE_DISABLED,
      an_config_call (port_example FM10000_CLAUSE73_AN_STATE_MACHINE)
        FM10000_PORT_EVENT_AN_CONFIG_REQ FM_PORT_AUTONEG_CLAUSE_37 0x1
        \<lparr>numPages = 0, nextPages = []\<rparr> 1] \<and>
   anSmType (portExt (snd (fm10000AnRestartOnNewConfig externals_stateful an_consts_example 1
      FM_ETH_MODE_1000BASE_X FM_PORT_AUTONEG_CLAUSE_37 0x1 \<lparr>numPages = 0, nextPages = []\<rparr>
      world_stateful)) 1) = FM10000_CLAUSE37_AN_STATE_MACHINE \<and>
   anInterruptMask (portExt (snd (fm10000AnRestartOnNewConfig externals_stateful an_consts_example
      1 FM_ETH_MODE_1000BASE_X FM_PORT_AUTONEG_CLAUSE_37 0x1 \<lparr>numPages = 0, nextPages = []\<rparr>
      world_stateful)) 1) = FM10000_AN37_INT_MASK an_consts_example \<and>
   fst (fm10000AnRestartOnNewConfig externals_stateful an_consts_example 1
      FM_ETH_MODE_1000BASE_X FM_PORT_AUTONEG_CLAUSE_37 0x1 \<lparr>numPages = 0, nextPages = []\<rparr>
      world_stateful) = FM_OK \<and>
   running (ext (snd (fm10000AnRestartOnNewConfig externals_stateful an_consts_example 1
      FM_ETH_MODE_1000BASE_X FM_PORT_AUTONEG_CLAUSE_37 0x1 \<lparr>numPages = 0, nextPages = []\<rparr>
      world_stateful))) 20 \<and>
   free_records (ext (snd (fm10000AnRestartOnNewConfig externals_stateful an_consts_example 1
      FM_ETH_MODE_1000BASE_X FM_PORT_AUTONEG_CLAUSE_37 0x1 \<lparr>numPages = 0, nextPages = []\<rparr>
      world_stateful))) = 0 \<and>
   fm10000AnRestartOnNewConfig externals_stateful an_consts_example 1 FM_ETH_MODE_AN_73
      FM_PORT_AUTONEG_CLAUSE_37 0x1 \<lparr>numPages = 0, nextPages = []\<rparr> world_stateful =
     (FM_OK, world_stateful)"
proof -
  have n: "fm10000IsPortAutonegReady 1 FM_ETH_MODE_AN_73 FM_PORT_AUTONEG_CLAUSE_37 world_stateful =
     (FM_OK, False, FM10000_CLAUSE37_AN_STATE_MACHINE)"
    by (simp add: fm10000IsPortAutonegReady_def world_stateful_def world_example_def
        port_example_def Let_def)
  have p: "portExt world_stateful 1 = port_example FM10000_CLAUSE73_AN_STATE_MACHINE"
    "portAttr world_stateful 1 = portAttr_example" "calls world_stateful = []"
    by (simp_all add: world_stateful_def world_example_def)
  have q: "anSmHandle (port_example FM10000_CLAUSE73_AN_STATE_MACHINE) = 20"
    "smHandle (port_example FM10000_CLAUSE73_AN_STATE_MACHINE) = 10"
    "anSmType (port_example FM10000_CLAUSE73_AN_STATE_MACHINE) = FM10000_CLAUSE73_AN_STATE_MACHINE"
    "autoNegMode portAttr_example = FM_PORT_AUTONEG_CLAUSE_73"
    "autoNegBasePage portAttr_example = 0x800001"
    "autoNegNextPages portAttr_example = \<lparr>numPages = 0, nextPages = []\<rparr>"
    by (simp_all add: port_example_def portAttr_example_def)
  have e0: "ext world_stateful =
      \<lparr>running = (\<lambda>h. h = 20), free_records = 2, an_im = (\<lambda>r. 0xFFFFFFFF)\<rparr>"
    by (simp add: world_stateful_def)
  have pt: "portType (portPtr world_stateful 1) = FM_PORT_TYPE_PHYSICAL"
    "ring (port_example FM10000_CLAUSE73_AN_STATE_MACHINE) = FM10000_SERDES_RING_EPL"
    by (simp_all add: world_stateful_def world_example_def port_example_def)
  have x0: "fst (fmStartStateMachine externals_stateful 20 FM10000_CLAUSE37_AN_STATE_MACHINE
          FM10000_AN_STATE_DISABLED (ext world_stateful)) = FM_ERR_STATE_MACHINE_HANDLE"
    by (simp add: externals_stateful_def e0)
  have xs: "AnRestart_state_at_start externals_stateful 1 world_stateful =
      \<lparr>running = (\<lambda>h. h = 20)(20 := False), free_records = 1, an_im = (\<lambda>r. 0xFFFFFFFF)\<rparr>"
    by (simp add: AnRestart_state_at_start_def Let_def p q externals_stateful_def e0)
  have f: "fmStartStateMachine externals_stateful h t s x =
      (if running x h then (FM_ERR_STATE_MACHINE_HANDLE, x)
       else (FM_OK, x\<lparr>running := (running x)(h := True)\<rparr>))"
    "fmNotifyStateMachineEvent externals_stateful h ei ui prt x =
      (if free_records x = 0 then (FM_ERR_NO_MEM, x)
       else (FM_OK, x\<lparr>free_records := free_records x - 1\<rparr>))" for h t s x ei ui prt
    by (simp_all add: externals_stateful_def)
  have e: "fst (fmStartStateMachine externals_stateful 20 FM10000_CLAUSE37_AN_STATE_MACHINE
          FM10000_AN_STATE_DISABLED (AnRestart_state_at_start externals_stateful 1 world_stateful))
     = FM_OK"
    by (simp add: xs f)
  have rhs: "fmNotifyStateMachineEvent externals_stateful h ei ui prt
      (snd (fmStartStateMachine externals_stateful 20 FM10000_CLAUSE37_AN_STATE_MACHINE
          FM10000_AN_STATE_DISABLED
          (AnRestart_state_at_start externals_stateful 1 world_stateful))) =
      (FM_OK, \<lparr>running = ((\<lambda>h. h = 20)(20 := False))(20 := True), free_records = 0,
               an_im = (\<lambda>r. 0xFFFFFFFF)\<rparr>)" for h ei ui prt
    by (simp add: xs f)
  note t1 = an_restart_on_new_config_rebinds [OF refl refl refl refl,
        of 1 FM_ETH_MODE_1000BASE_X FM_PORT_AUTONEG_CLAUSE_37 world_stateful externals_stateful
           an_consts_example "0x1" "\<lparr>numPages = 0, nextPages = []\<rparr>"]
  note t2 = an_restart_on_new_config_rebinds [OF refl refl refl refl,
        of 1 FM_ETH_MODE_AN_73 FM_PORT_AUTONEG_CLAUSE_37 world_stateful externals_stateful
           an_consts_example "0x1" "\<lparr>numPages = 0, nextPages = []\<rparr>"]
  have a: "fm10000AnRestartOnNewConfig externals_stateful an_consts_example 1 FM_ETH_MODE_AN_73
      FM_PORT_AUTONEG_CLAUSE_37 0x1 \<lparr>numPages = 0, nextPages = []\<rparr> world_stateful =
     (FM_OK, world_stateful)"
    using t2 by (simp add: n)
  have b: "calls (snd (fm10000AnRestartOnNewConfig externals_stateful an_consts_example 1
      FM_ETH_MODE_1000BASE_X FM_PORT_AUTONEG_CLAUSE_37 0x1 \<lparr>numPages = 0, nextPages = []\<rparr>
      world_stateful)) =
     [an_config_call (port_example FM10000_CLAUSE73_AN_STATE_MACHINE)
        FM10000_PORT_EVENT_AN_DISABLE_REQ FM_PORT_AUTONEG_CLAUSE_73 0x800001
        \<lparr>numPages = 0, nextPages = []\<rparr> 1,
      Call_fmStopStateMachine 20,
      Call_fmStartStateMachine 20 FM10000_CLAUSE37_AN_STATE_MACHINE FM10000_AN_STATE_DISABLED,
      an_config_call (port_example FM10000_CLAUSE73_AN_STATE_MACHINE)
        FM10000_PORT_EVENT_AN_CONFIG_REQ FM_PORT_AUTONEG_CLAUSE_37 0x1
        \<lparr>numPages = 0, nextPages = []\<rparr> 1] \<and>
     anSmType (portExt (snd (fm10000AnRestartOnNewConfig externals_stateful an_consts_example 1
      FM_ETH_MODE_1000BASE_X FM_PORT_AUTONEG_CLAUSE_37 0x1 \<lparr>numPages = 0, nextPages = []\<rparr>
      world_stateful)) 1) = FM10000_CLAUSE37_AN_STATE_MACHINE \<and>
     anInterruptMask (portExt (snd (fm10000AnRestartOnNewConfig externals_stateful
      an_consts_example 1 FM_ETH_MODE_1000BASE_X FM_PORT_AUTONEG_CLAUSE_37 0x1
      \<lparr>numPages = 0, nextPages = []\<rparr> world_stateful)) 1) =
       FM10000_AN37_INT_MASK an_consts_example \<and>
     fst (fm10000AnRestartOnNewConfig externals_stateful an_consts_example 1
      FM_ETH_MODE_1000BASE_X FM_PORT_AUTONEG_CLAUSE_37 0x1 \<lparr>numPages = 0, nextPages = []\<rparr>
      world_stateful) = FM_OK \<and>
     ext (snd (fm10000AnRestartOnNewConfig externals_stateful an_consts_example 1
      FM_ETH_MODE_1000BASE_X FM_PORT_AUTONEG_CLAUSE_37 0x1 \<lparr>numPages = 0, nextPages = []\<rparr>
      world_stateful)) =
       \<lparr>running = ((\<lambda>h. h = 20)(20 := False))(20 := True), free_records = 0,
        an_im = (\<lambda>r. 0xFFFFFFFF)\<rparr>"
    using t1 e by (simp add: ready_example_37 p q pt rhs)
  from b have r1: "running (ext (snd (fm10000AnRestartOnNewConfig externals_stateful
      an_consts_example 1 FM_ETH_MODE_1000BASE_X FM_PORT_AUTONEG_CLAUSE_37 0x1
      \<lparr>numPages = 0, nextPages = []\<rparr> world_stateful))) 20"
    and r2: "free_records (ext (snd (fm10000AnRestartOnNewConfig externals_stateful
      an_consts_example 1 FM_ETH_MODE_1000BASE_X FM_PORT_AUTONEG_CLAUSE_37 0x1
      \<lparr>numPages = 0, nextPages = []\<rparr> world_stateful))) = 0"
    by simp_all
  have p1: "anSmType (portExt world_stateful 1) = FM10000_CLAUSE73_AN_STATE_MACHINE"
    by (simp add: p q)
  from ready_example_37 p1 x0 e b r1 r2 a show ?thesis by blast
qed

text \<open>
  Claim C2 as stated fails on a port that is bound to no state machine: port 3 of the
  example is ready for Clause 73 and the expected type differs from the bound one
  (none), yet the calls are only the start of the new machine and the
  \<^verbatim>\<open>AN_CONFIG_REQ\<close> event: no \<^verbatim>\<open>AN_DISABLE_REQ\<close> is sent and no machine is stopped.
\<close>

theorem an_restart_unbound_port_sends_no_disable:
  "fm10000IsPortAutonegReady 3 FM_ETH_MODE_AN_73 FM_PORT_AUTONEG_CLAUSE_73 world_example =
     (FM_OK, True, FM10000_CLAUSE73_AN_STATE_MACHINE) \<and>
   anSmType (portExt world_example 3) = FM_SMTYPE_UNSPECIFIED \<and>
   calls (snd (fm10000AnRestartOnNewConfig externals_ok an_consts_example 3 FM_ETH_MODE_AN_73
      FM_PORT_AUTONEG_CLAUSE_73 0x800001 \<lparr>numPages = 0, nextPages = []\<rparr> world_example)) =
     [Call_fmStartStateMachine 20 FM10000_CLAUSE73_AN_STATE_MACHINE FM10000_AN_STATE_DISABLED,
      an_config_call (port_example FM_SMTYPE_UNSPECIFIED)
        FM10000_PORT_EVENT_AN_CONFIG_REQ FM_PORT_AUTONEG_CLAUSE_73 0x800001
        \<lparr>numPages = 0, nextPages = []\<rparr> 3]"
proof -
  have s: "fst (fmStartStateMachine externals_ok (anSmHandle (portExt world_example 3))
      (snd (snd (fm10000IsPortAutonegReady 3 FM_ETH_MODE_AN_73 FM_PORT_AUTONEG_CLAUSE_73
         world_example))) FM10000_AN_STATE_DISABLED
      (AnRestart_state_at_start externals_ok 3 world_example)) = FM_OK"
    by (simp add: externals_ok_def)
  have p: "portExt world_example 3 = port_example FM_SMTYPE_UNSPECIFIED"
    "calls world_example = []"
    by (simp_all add: world_example_def)
  have q: "anSmHandle (port_example FM_SMTYPE_UNSPECIFIED) = 20"
    "anSmType (port_example FM_SMTYPE_UNSPECIFIED) = FM_SMTYPE_UNSPECIFIED"
    by (simp_all add: port_example_def)
  show ?thesis
    using AnRestart_switch [of 3 FM_ETH_MODE_AN_73 FM_PORT_AUTONEG_CLAUSE_73 world_example
        externals_ok an_consts_example "0x800001" "\<lparr>numPages = 0, nextPages = []\<rparr>"] s
    by (simp add: ready_example_73 p q)
qed


section \<open>Properties of the base page validation\<close>


lemma field_mask_eq: "(push_bit k 2 - 1 :: 64 word) = mask (Suc k)"
  by (simp add: mask_eq_exp_minus_1 push_bit_eq_mult)

lemma get_set_field_zero: "FM_GET_FIELD64 (FM_SET_FIELD64 x l h 0) l h = 0"
  unfolding FM_GET_FIELD64_def FM_SET_FIELD64_def field_mask_eq
  by (rule bit_eqI) (auto simp: bit_simps dest: bit_imp_le_length)

lemma get_set_field:
  "l \<le> h \<Longrightarrow> h < 64 \<Longrightarrow>
   FM_GET_FIELD64 (FM_SET_FIELD64 x l h v) l h = v AND (push_bit (h - l) 2 - 1)"
  unfolding FM_GET_FIELD64_def FM_SET_FIELD64_def field_mask_eq
  by (rule bit_eqI) (auto simp: bit_simps dest: bit_imp_le_length)

lemma cleaned_ability_in_field:
  "(ucast ((ucast (FM_GET_FIELD64 basepage l h) :: 32 word) AND NOT u) :: 64 word) AND
     (push_bit (h - l) 2 - 1) =
   ucast ((ucast (FM_GET_FIELD64 basepage l h) :: 32 word) AND NOT u)"
  unfolding FM_GET_FIELD64_def field_mask_eq
  by (rule bit_eqI) (auto simp: bit_simps)

lemma validate_zero:
  "(ucast (FM_GET_FIELD64 basepage (FM10000_AN_73_BASE_PAGE_TX_l_A c)
       (FM10000_AN_73_BASE_PAGE_TX_h_A c)) :: 32 word) = 0 \<Longrightarrow>
   fm10000AnValidateBasePage c port FM_PORT_AUTONEG_CLAUSE_73 basepage modBasePage w =
     (FM_OK, FM_SET_FIELD64 modBasePage (FM10000_AN_73_BASE_PAGE_TX_l_A c)
               (FM10000_AN_73_BASE_PAGE_TX_h_A c) 0)"
  by (simp add: fm10000AnValidateBasePage_def Let_def)

lemma if_same_chain: "(if a then x else if b then x else y) = (if a \<or> b then x else y)"
  by simp

lemma validate_nonzero_eq:
  assumes "(ucast (FM_GET_FIELD64 basepage (FM10000_AN_73_BASE_PAGE_TX_l_A c)
       (FM10000_AN_73_BASE_PAGE_TX_h_A c)) :: 32 word) \<noteq> 0"
  shows "fm10000AnValidateBasePage c port FM_PORT_AUTONEG_CLAUSE_73 basepage modBasePage w =
    (let ability = (ucast (FM_GET_FIELD64 basepage (FM10000_AN_73_BASE_PAGE_TX_l_A c)
                      (FM10000_AN_73_BASE_PAGE_TX_h_A c)) :: 32 word) AND
                   NOT (FM10000_AN73_UNSUPPORTED_ABILITIES c)
     in if ability = 0 \<or>
           list_ex (\<lambda>p. ability AND fst p \<noteq> 0 \<and> capabilities (portPtr w port) AND snd p = 0)
             (checked_abilities c)
        then (FM_ERR_UNSUPPORTED, modBasePage)
        else (FM_OK, FM_SET_FIELD64 modBasePage (FM10000_AN_73_BASE_PAGE_TX_l_A c)
                       (FM10000_AN_73_BASE_PAGE_TX_h_A c) (ucast ability)))"
  using assms
  by (simp add: fm10000AnValidateBasePage_def Let_def checked_abilities_def if_same_chain)

lemma checked_subset_speeds: "set (checked_abilities c) \<subseteq> set (ability_speeds c)"
  by (simp add: checked_abilities_def ability_speeds_def)

text \<open>
  Claim C5 (as amended). For every Clause 73 base page whose ability field is not zero
  on input: the ability bits in the unsupported mask are masked off; if nothing is left
  the function fails with \<^verbatim>\<open>FM_ERR_UNSUPPORTED\<close>; if a remaining bit among 1000BASE-KX,
  10GBASE-KR, 25GBASE-KR, 40GBASE-KR4, 40GBASE-CR4, 100GBASE-KR4 and 100GBASE-CR4
  advertises a speed that the port's capabilities lack, it fails with
  \<^verbatim>\<open>FM_ERR_UNSUPPORTED\<close>; if something is left and the speed of every remaining supported
  ability (25GBASE-CR included) is among the capabilities, it returns \<^verbatim>\<open>FM_OK\<close> and the
  returned base page is the caller's with the cleaned ability written into its ability
  field. A failing call leaves the caller's page as it was.
\<close>

theorem an_validate_base_page_nonzero_ability:
  assumes "l = FM10000_AN_73_BASE_PAGE_TX_l_A c"
    and "h = FM10000_AN_73_BASE_PAGE_TX_h_A c"
    and "ability0 = (ucast (FM_GET_FIELD64 basepage l h) :: 32 word)"
    and "ability0 \<noteq> 0"
    and "ability = ability0 AND NOT (FM10000_AN73_UNSUPPORTED_ABILITIES c)"
    and "caps = capabilities (portPtr w port)"
    and "r = fm10000AnValidateBasePage c port FM_PORT_AUTONEG_CLAUSE_73 basepage modBasePage w"
  shows "ability AND FM10000_AN73_UNSUPPORTED_ABILITIES c = 0 \<and>
     (ability = 0 \<longrightarrow> r = (FM_ERR_UNSUPPORTED, modBasePage)) \<and>
     ((\<exists>p \<in> set (checked_abilities c). ability AND fst p \<noteq> 0 \<and> caps AND snd p = 0) \<longrightarrow>
        r = (FM_ERR_UNSUPPORTED, modBasePage)) \<and>
     (ability \<noteq> 0 \<and>
      (\<forall>p \<in> set (ability_speeds c). ability AND fst p \<noteq> 0 \<longrightarrow> caps AND snd p \<noteq> 0) \<longrightarrow>
        r = (FM_OK, FM_SET_FIELD64 modBasePage l h (ucast ability))) \<and>
     (l \<le> h \<and> h < 64 \<longrightarrow>
        FM_GET_FIELD64 (FM_SET_FIELD64 modBasePage l h (ucast ability)) l h = ucast ability)"
proof -
  have nz: "(ucast (FM_GET_FIELD64 basepage (FM10000_AN_73_BASE_PAGE_TX_l_A c)
       (FM10000_AN_73_BASE_PAGE_TX_h_A c)) :: 32 word) \<noteq> 0"
    using assms(1-4) by simp
  have req: "r = (if ability = 0 \<or>
           list_ex (\<lambda>p. ability AND fst p \<noteq> 0 \<and> caps AND snd p = 0) (checked_abilities c)
        then (FM_ERR_UNSUPPORTED, modBasePage)
        else (FM_OK, FM_SET_FIELD64 modBasePage l h (ucast ability)))"
    unfolding assms(7) validate_nonzero_eq [OF nz] Let_def
    unfolding assms(5) assms(3) assms(1) assms(2) assms(6) by (rule refl)
  show ?thesis
  proof (intro conjI impI)
    show "ability AND FM10000_AN73_UNSUPPORTED_ABILITIES c = 0"
      unfolding assms(5) by (rule bit_eqI) (auto simp: bit_simps)
  next
    assume "ability = 0"
    then show "r = (FM_ERR_UNSUPPORTED, modBasePage)"
      unfolding req by simp
  next
    assume "\<exists>p \<in> set (checked_abilities c). ability AND fst p \<noteq> 0 \<and> caps AND snd p = 0"
    then have "list_ex (\<lambda>p. ability AND fst p \<noteq> 0 \<and> caps AND snd p = 0) (checked_abilities c)"
      unfolding list_ex_iff .
    then show "r = (FM_ERR_UNSUPPORTED, modBasePage)"
      unfolding req by simp
  next
    assume a: "ability \<noteq> 0 \<and>
      (\<forall>p \<in> set (ability_speeds c). ability AND fst p \<noteq> 0 \<longrightarrow> caps AND snd p \<noteq> 0)"
    then have "\<not> list_ex (\<lambda>p. ability AND fst p \<noteq> 0 \<and> caps AND snd p = 0) (checked_abilities c)"
      unfolding list_ex_iff using checked_subset_speeds [of c] by blast
    with a show "r = (FM_OK, FM_SET_FIELD64 modBasePage l h (ucast ability))"
      unfolding req by simp
  next
    assume "l \<le> h \<and> h < 64"
    then show "FM_GET_FIELD64 (FM_SET_FIELD64 modBasePage l h (ucast ability)) l h = ucast ability"
      unfolding assms(5) assms(3) by (simp add: get_set_field cleaned_ability_in_field)
  qed
qed

text \<open>
  Claim C10. For every port, whatever its capabilities and whatever the ability masks,
  a Clause 73 base page whose ability field is zero on input is accepted: the function
  returns \<^verbatim>\<open>FM_OK\<close> and writes a zero ability field into the returned base page. (The
  hypothesis is on the 32-bit \<^verbatim>\<open>ability\<close> variable, the low half of the field.)
\<close>

theorem an_validate_base_page_zero_ability:
  assumes "l = FM10000_AN_73_BASE_PAGE_TX_l_A c"
    and "h = FM10000_AN_73_BASE_PAGE_TX_h_A c"
    and "(ucast (FM_GET_FIELD64 basepage l h) :: 32 word) = 0"
  shows "fm10000AnValidateBasePage c port FM_PORT_AUTONEG_CLAUSE_73 basepage modBasePage w =
      (FM_OK, FM_SET_FIELD64 modBasePage l h 0) \<and>
    FM_GET_FIELD64 (FM_SET_FIELD64 modBasePage l h 0) l h = 0"
  using assms by (simp add: validate_zero get_set_field_zero)

theorem an_validate_base_page_nonzero_ability_witness:
  "(ucast (FM_GET_FIELD64 0x800001 21 45) :: 32 word) = 4 \<and>
   fm10000AnValidateBasePage an_consts_example 1 FM_PORT_AUTONEG_CLAUSE_73 0x800001 0x1
     world_example = (FM_OK, FM_SET_FIELD64 0x1 21 45 4) \<and>
   FM_GET_FIELD64 (FM_SET_FIELD64 0x1 21 45 4) 21 45 = 4 \<and>
   fm10000AnValidateBasePage an_consts_example 1 FM_PORT_AUTONEG_CLAUSE_73 0x400001 0x1
     world_example = (FM_ERR_UNSUPPORTED, 0x1) \<and>
   fm10000AnValidateBasePage an_consts_example 1 FM_PORT_AUTONEG_CLAUSE_73 0x1000001 0x1
     world_example = (FM_ERR_UNSUPPORTED, 0x1)"
proof -
  have c: "FM10000_AN_73_BASE_PAGE_TX_l_A an_consts_example = 21"
    "FM10000_AN_73_BASE_PAGE_TX_h_A an_consts_example = 45"
    "FM10000_AN73_UNSUPPORTED_ABILITIES an_consts_example = 0x1FFF862"
    "capabilities (portPtr world_example 1) = 0x140"
    by (simp_all add: an_consts_example_def world_example_def)
  have f: "(ucast (FM_GET_FIELD64 0x800001 21 45) :: 32 word) = 4"
    "(ucast (FM_GET_FIELD64 0x400001 21 45) :: 32 word) = 2"
    "(ucast (FM_GET_FIELD64 0x1000001 21 45) :: 32 word) = 8"
    by (simp_all add: FM_GET_FIELD64_def)
  have nz: "(ucast (FM_GET_FIELD64 0x800001 (FM10000_AN_73_BASE_PAGE_TX_l_A an_consts_example)
      (FM10000_AN_73_BASE_PAGE_TX_h_A an_consts_example)) :: 32 word) \<noteq> 0"
    "(ucast (FM_GET_FIELD64 0x400001 (FM10000_AN_73_BASE_PAGE_TX_l_A an_consts_example)
      (FM10000_AN_73_BASE_PAGE_TX_h_A an_consts_example)) :: 32 word) \<noteq> 0"
    "(ucast (FM_GET_FIELD64 0x1000001 (FM10000_AN_73_BASE_PAGE_TX_l_A an_consts_example)
      (FM10000_AN_73_BASE_PAGE_TX_h_A an_consts_example)) :: 32 word) \<noteq> 0"
    by (simp_all add: c f)
  have sp: "ability_speeds an_consts_example =
      [(0x1, 0x40), (0x4, 0x100), (0x200, 0x400), (0x400, 0x400), (0x8, 0x800), (0x10, 0x800),
       (0x80, 0x1000), (0x100, 0x1000)]"
    "checked_abilities an_consts_example =
      [(0x1, 0x40), (0x4, 0x100), (0x200, 0x400), (0x8, 0x800), (0x10, 0x800),
       (0x80, 0x1000), (0x100, 0x1000)]"
    by (simp_all add: ability_speeds_def checked_abilities_def an_consts_example_def)
  note t1 = an_validate_base_page_nonzero_ability [OF refl refl refl nz(1) refl refl refl,
      where port = 1 and w = world_example and modBasePage = "0x1", unfolded c f sp]
  note t2 = an_validate_base_page_nonzero_ability [OF refl refl refl nz(2) refl refl refl,
      where port = 1 and w = world_example and modBasePage = "0x1", unfolded c f sp]
  note t3 = an_validate_base_page_nonzero_ability [OF refl refl refl nz(3) refl refl refl,
      where port = 1 and w = world_example and modBasePage = "0x1", unfolded c f sp]
  from t1 have "fm10000AnValidateBasePage an_consts_example 1 FM_PORT_AUTONEG_CLAUSE_73 0x800001 0x1
     world_example = (FM_OK, FM_SET_FIELD64 0x1 21 45 4) \<and>
     FM_GET_FIELD64 (FM_SET_FIELD64 0x1 21 45 4) 21 45 = 4"
    by simp
  moreover from t2 have "fm10000AnValidateBasePage an_consts_example 1 FM_PORT_AUTONEG_CLAUSE_73
     0x400001 0x1 world_example = (FM_ERR_UNSUPPORTED, 0x1)"
    by simp
  moreover from t3 have "fm10000AnValidateBasePage an_consts_example 1 FM_PORT_AUTONEG_CLAUSE_73
     0x1000001 0x1 world_example = (FM_ERR_UNSUPPORTED, 0x1)"
    by simp
  ultimately show ?thesis using f(1) by simp
qed

text \<open>
  Claim C5 as stated fails on a base page whose ability field is zero already on input:
  the field is zero after the masking, and the function returns \<^verbatim>\<open>FM_OK\<close>.
\<close>

theorem an_validate_base_page_zero_is_accepted:
  "(ucast (FM_GET_FIELD64 0x1 (FM10000_AN_73_BASE_PAGE_TX_l_A an_consts_example)
      (FM10000_AN_73_BASE_PAGE_TX_h_A an_consts_example)) :: 32 word) AND
     NOT (FM10000_AN73_UNSUPPORTED_ABILITIES an_consts_example) = 0 \<and>
   fm10000AnValidateBasePage an_consts_example 1 FM_PORT_AUTONEG_CLAUSE_73 0x1 0x1 world_example =
     (FM_OK, 0x1)"
  by (simp add: fm10000AnValidateBasePage_def Let_def an_consts_example_def FM_GET_FIELD64_def
      FM_SET_FIELD64_def)

theorem an_validate_base_page_zero_ability_witness:
  "(ucast (FM_GET_FIELD64 0x1 21 45) :: 32 word) = 0 \<and>
   fm10000AnValidateBasePage an_consts_example 1 FM_PORT_AUTONEG_CLAUSE_73 0x1 0x800001
     world_example = (FM_OK, FM_SET_FIELD64 0x800001 21 45 0) \<and>
   FM_SET_FIELD64 0x800001 21 45 0 = 0x1"
proof -
  have c: "FM10000_AN_73_BASE_PAGE_TX_l_A an_consts_example = 21"
    "FM10000_AN_73_BASE_PAGE_TX_h_A an_consts_example = 45"
    by (simp_all add: an_consts_example_def)
  have z: "(ucast (FM_GET_FIELD64 0x1 21 45) :: 32 word) = 0"
    by (simp add: FM_GET_FIELD64_def)
  have s: "FM_SET_FIELD64 0x800001 21 45 0 = 0x1"
    by (simp add: FM_SET_FIELD64_def)
  from an_validate_base_page_zero_ability [OF c(1) [symmetric] c(2) [symmetric] z,
      where port = 1 and w = world_example and modBasePage = "0x800001"] z s
  show ?thesis by simp
qed


section \<open>Properties of the next-page scan and of the maximum speed\<close>



text \<open>
  Claim C9 (the source at the failing input). With one next page (\<open>numPages = 1\<close>, a buffer
  of one element) that is a message page carrying the OUI message code, the scan reads
  \<^verbatim>\<open>nextPages[0]\<close> and then \<^verbatim>\<open>nextPages[pageNum+1]\<close>, index 1, which is not below
  \<open>numPages\<close>: the lookup yields \<open>None\<close>. The guard before it tests
  \<^verbatim>\<open>pageNum >= numPages\<close>, which is false inside the loop.
\<close>

theorem ext_tech_ability_scan_reads_past_last_page:
  "FM_GET_FIELD64 0x4DF03530005 (FM10000_AN_73_NEXT_PAGE_RX_l_MU an_consts_example)
     (FM10000_AN_73_NEXT_PAGE_RX_h_MU an_consts_example) =
     FM10000_AN_NEXTPAGE_OUI_MSG_CODE an_consts_example \<and>
   page_at [0x4DF03530005] 0 = Some 0x4DF03530005 \<and>
   page_at [0x4DF03530005] (0 + 1) = None \<and>
   fm10000AnGetNextPageExtTechAbilityIndex an_consts_example 0x6A737D [0x4DF03530005] 1 = None"
  unfolding fm10000AnGetNextPageExtTechAbilityIndex_def
  by (subst ExtTechAbilityIndex_loop.simps)
     (simp add: page_at_def an_consts_example_def FM_GET_FIELD64_def)























section \<open>Properties of the transceiver state update\<close>


lemma xor_zero_eq: "a XOR b = 0 \<Longrightarrow> a = (b :: 32 word)"
proof -
  assume h: "a XOR b = 0"
  have "a = (a XOR b) XOR b" by (simp add: xor.assoc)
  also have "\<dots> = b" by (simp add: h)
  finally show ?thesis .
qed

lemma present_change_differs:
  "a AND (p :: 32 word) \<noteq> b AND p \<Longrightarrow> a XOR b \<noteq> 0"
  using xor_zero_eq [of a b] by auto

lemma XcvrUpdateState_change_reset:
  assumes "portIdx < length xcvrInfo"
    and "xcvrStateValid AND FM_PLAT_XCVR_PRESENT pc \<noteq> 0"
    and "modState (xcvrInfo ! portIdx) AND FM_PLAT_XCVR_PRESENT pc \<noteq>
         xcvrState AND FM_PLAT_XCVR_PRESENT pc"
    and "r = fst (XcvrUpdateState_change pc portIdx xcvrStateValid xcvrState xcvrInfo) ! portIdx"
  shows "modState r = xcvrState \<and> xcvrType r = FM_PLATFORM_XCVR_TYPE_NOT_PRESENT \<and>
     cableLength r = 0 \<and> present r = (xcvrState AND FM_PLAT_XCVR_PRESENT pc \<noteq> 0) \<and>
     \<not> eepromBaseValid r \<and> \<not> eepromExtValid r \<and> eepromReadRetries r = 0"
proof (cases "portIdx = 0")
  case True
  with assms show ?thesis
    by (simp add: XcvrUpdateState_change_def Let_def)
next
  case False
  with assms show ?thesis
    by (simp add: XcvrUpdateState_change_def Let_def nth_list_update)
qed

lemma XcvrUpdateState_change_notify:
  assumes "xcvrStateValid AND FM_PLAT_XCVR_PRESENT pc \<noteq> 0"
    and "modState (xcvrInfo ! portIdx) AND FM_PLAT_XCVR_PRESENT pc \<noteq>
         xcvrState AND FM_PLAT_XCVR_PRESENT pc"
  shows "snd (XcvrUpdateState_change pc portIdx xcvrStateValid xcvrState xcvrInfo)"
  using assms by (simp add: XcvrUpdateState_change_def Let_def)

lemma XcvrUpdateState_change_configRetries:
  assumes "portIdx < length xcvrInfo"
    and "\<not> (xcvrStateValid AND FM_PLAT_XCVR_ENABLE pc \<noteq> 0 \<and>
            modState (xcvrInfo ! portIdx) AND FM_PLAT_XCVR_ENABLE pc \<noteq>
            xcvrState AND FM_PLAT_XCVR_ENABLE pc)"
  shows "configRetries (fst (XcvrUpdateState_change pc portIdx xcvrStateValid xcvrState xcvrInfo)
           ! portIdx) = configRetries (xcvrInfo ! portIdx)"
proof (cases "portIdx = 0")
  case True
  with assms show ?thesis
    by (auto simp: XcvrUpdateState_change_def Let_def)
next
  case False
  with assms show ?thesis
    by (auto simp: XcvrUpdateState_change_def Let_def nth_list_update)
qed

lemma XcvrUpdateState_port_unfold:
  assumes "intfType (cfgs ! portIdx) = FM_PLAT_INTF_TYPE_SFPP \<or>
           intfType (cfgs ! portIdx) = FM_PLAT_INTF_TYPE_QSFP_LANE0"
    and "xcvrStateValid AND FM_PLAT_XCVR_PRESENT pc \<noteq> 0"
    and "modState (xcvrInfo ! portIdx) AND FM_PLAT_XCVR_PRESENT pc \<noteq>
         xcvrState AND FM_PLAT_XCVR_PRESENT pc"
  shows "fst (XcvrUpdateState_port L pc cfgs portIdx xcvrStateValid xcvrState xcvrInfo) =
     (let x3 = fst (XcvrUpdateState_change pc portIdx xcvrStateValid xcvrState xcvrInfo)
      in if xcvrState AND FM_PLAT_XCVR_PRESENT pc \<noteq> 0 \<and> xcvrState AND FM_PLAT_XCVR_ENABLE pc \<noteq> 0
         then (case XcvrReadAndValidateEeprom L cfgs portIdx False x3 of
                 (status, x) \<Rightarrow>
                   if status = FM_OK then UpdateXcvrConfig L pc cfgs portIdx MAX_CONFIG_RETRY x
                   else x)
         else x3)"
proof -
  have d: "modState (xcvrInfo ! portIdx) XOR xcvrState \<noteq> 0"
    using assms(3) by (rule present_change_differs)
  have n: "snd (XcvrUpdateState_change pc portIdx xcvrStateValid xcvrState xcvrInfo)"
    using assms(2,3) by (rule XcvrUpdateState_change_notify)
  show ?thesis
    using assms(1) d n
    by (auto simp: XcvrUpdateState_port_def Let_def case_prod_beta)
qed

lemma XcvrUpdateState_change_length:
  "length (fst (XcvrUpdateState_change pc portIdx xcvrStateValid xcvrState xcvrInfo)) =
   length xcvrInfo"
  by (simp add: XcvrUpdateState_change_def Let_def)

lemma XcvrReadAndValidateEeprom_length:
  "length (snd (XcvrReadAndValidateEeprom L cfgs portIdx retry x)) = length x"
  by (simp add: XcvrReadAndValidateEeprom_def Let_def case_prod_beta)

lemma XcvrReadAndValidateEeprom_configRetries:
  "portIdx < length x \<Longrightarrow>
   configRetries (snd (XcvrReadAndValidateEeprom L cfgs portIdx retry x) ! portIdx) =
   configRetries (x ! portIdx)"
  by (simp add: XcvrReadAndValidateEeprom_def Let_def case_prod_beta)

lemma UpdateXcvrConfig_other:
  "intfType (cfgs ! portIdx) \<noteq> FM_PLAT_INTF_TYPE_SFPP \<Longrightarrow>
   UpdateXcvrConfig L pc cfgs portIdx retries x = x"
  by (simp add: UpdateXcvrConfig_def Let_def)

lemma UpdateXcvrConfig_configRetries:
  "intfType (cfgs ! portIdx) = FM_PLAT_INTF_TYPE_SFPP \<Longrightarrow> portIdx < length x \<Longrightarrow>
   configRetries (UpdateXcvrConfig L pc cfgs portIdx retries x ! portIdx) =
     (if ConfigureSfppXcvr L pc (cfgPort (cfgs ! portIdx))
           ((x ! portIdx)\<lparr>configRetries := retries - 1\<rparr>) \<noteq> FM_OK
      then retries - 1 else 0)"
  by (simp add: UpdateXcvrConfig_def Let_def)

text \<open>
  Claim C1 (as amended). For every port of the table whose hardware-valid PRESENT bit
  changes in its turn of the update-state sweep, the state-change step stores the new
  module state in that same port's record, sets its type to \<^verbatim>\<open>NOT_PRESENT\<close>, its cable
  length to 0, its \<^verbatim>\<open>present\<close> flag to the new PRESENT bit, clears both checksum-valid flags,
  sets its EEPROM-read-retry counter to 0 and marks the turn for notification. These
  values stand at the end of the turn unless the module is now present and enabled; then
  the EEPROM is read again from the records so reset. The config-retry counter of the
  port is not reset by the PRESENT change. At the end of the turn it has the value it
  had before the turn, unless a valid ENABLE bit changes as well, or the module is now
  present and enabled, its EEPROM was read and the port is an SFP+ port: then the
  transceiver is configured, which leaves the counter at 0 when the configuration
  succeeds and at \<^verbatim>\<open>MAX_CONFIG_RETRY - 1\<close> when it fails.
\<close>

theorem xcvr_update_state_present_change:
  assumes "portIdx < length xcvrInfo"
    and "intfType (cfgs ! portIdx) = FM_PLAT_INTF_TYPE_SFPP \<or>
         intfType (cfgs ! portIdx) = FM_PLAT_INTF_TYPE_QSFP_LANE0"
    and "xcvrStateValid AND FM_PLAT_XCVR_PRESENT pc \<noteq> 0"
    and "modState (xcvrInfo ! portIdx) AND FM_PLAT_XCVR_PRESENT pc \<noteq>
         xcvrState AND FM_PLAT_XCVR_PRESENT pc"
    and "x3 = fst (XcvrUpdateState_change pc portIdx xcvrStateValid xcvrState xcvrInfo)"
    and "x4 = fst (XcvrUpdateState_port L pc cfgs portIdx xcvrStateValid xcvrState xcvrInfo)"
    and "rr = XcvrReadAndValidateEeprom L cfgs portIdx False x3"
  shows "(modState (x3 ! portIdx) = xcvrState \<and>
      xcvrType (x3 ! portIdx) = FM_PLATFORM_XCVR_TYPE_NOT_PRESENT \<and>
      cableLength (x3 ! portIdx) = 0 \<and>
      present (x3 ! portIdx) = (xcvrState AND FM_PLAT_XCVR_PRESENT pc \<noteq> 0) \<and>
      \<not> eepromBaseValid (x3 ! portIdx) \<and> \<not> eepromExtValid (x3 ! portIdx) \<and>
      eepromReadRetries (x3 ! portIdx) = 0) \<and>
     snd (XcvrUpdateState_change pc portIdx xcvrStateValid xcvrState xcvrInfo) \<and>
     (\<not> (xcvrState AND FM_PLAT_XCVR_PRESENT pc \<noteq> 0 \<and> xcvrState AND FM_PLAT_XCVR_ENABLE pc \<noteq> 0)
        \<longrightarrow> x4 = x3) \<and>
     (xcvrState AND FM_PLAT_XCVR_PRESENT pc \<noteq> 0 \<and> xcvrState AND FM_PLAT_XCVR_ENABLE pc \<noteq> 0
        \<longrightarrow> x4 = (if fst rr = FM_OK
                   then UpdateXcvrConfig L pc cfgs portIdx MAX_CONFIG_RETRY (snd rr)
                   else snd rr)) \<and>
     (\<not> (xcvrStateValid AND FM_PLAT_XCVR_ENABLE pc \<noteq> 0 \<and>
          modState (xcvrInfo ! portIdx) AND FM_PLAT_XCVR_ENABLE pc \<noteq>
          xcvrState AND FM_PLAT_XCVR_ENABLE pc) \<and>
      \<not> (xcvrState AND FM_PLAT_XCVR_PRESENT pc \<noteq> 0 \<and> xcvrState AND FM_PLAT_XCVR_ENABLE pc \<noteq> 0 \<and>
          fst rr = FM_OK \<and> intfType (cfgs ! portIdx) = FM_PLAT_INTF_TYPE_SFPP)
        \<longrightarrow> configRetries (x4 ! portIdx) = configRetries (xcvrInfo ! portIdx)) \<and>
     (xcvrState AND FM_PLAT_XCVR_PRESENT pc \<noteq> 0 \<and> xcvrState AND FM_PLAT_XCVR_ENABLE pc \<noteq> 0 \<and>
      fst rr = FM_OK \<and> intfType (cfgs ! portIdx) = FM_PLAT_INTF_TYPE_SFPP
        \<longrightarrow> configRetries (x4 ! portIdx) =
              (if ConfigureSfppXcvr L pc (cfgPort (cfgs ! portIdx))
                    ((snd rr ! portIdx)\<lparr>configRetries := MAX_CONFIG_RETRY - 1\<rparr>) \<noteq> FM_OK
               then MAX_CONFIG_RETRY - 1 else 0))"
proof -
  note u = XcvrUpdateState_port_unfold [OF assms(2) assms(3) assms(4), of L]
  have l3: "portIdx < length x3"
    unfolding assms(5) using assms(1) by (simp add: XcvrUpdateState_change_length)
  have lr: "portIdx < length (snd rr)"
    unfolding assms(7) using l3 by (simp add: XcvrReadAndValidateEeprom_length)
  have reset: "modState (x3 ! portIdx) = xcvrState \<and>
      xcvrType (x3 ! portIdx) = FM_PLATFORM_XCVR_TYPE_NOT_PRESENT \<and>
      cableLength (x3 ! portIdx) = 0 \<and>
      present (x3 ! portIdx) = (xcvrState AND FM_PLAT_XCVR_PRESENT pc \<noteq> 0) \<and>
      \<not> eepromBaseValid (x3 ! portIdx) \<and> \<not> eepromExtValid (x3 ! portIdx) \<and>
      eepromReadRetries (x3 ! portIdx) = 0"
    unfolding assms(5)
    by (rule XcvrUpdateState_change_reset [OF assms(1) assms(3) assms(4) refl])
  have notify: "snd (XcvrUpdateState_change pc portIdx xcvrStateValid xcvrState xcvrInfo)"
    using assms(3,4) by (rule XcvrUpdateState_change_notify)
  have stay: "x4 = x3"
    if "\<not> (xcvrState AND FM_PLAT_XCVR_PRESENT pc \<noteq> 0 \<and>
           xcvrState AND FM_PLAT_XCVR_ENABLE pc \<noteq> 0)"
    unfolding assms(5) assms(6) using u that by (simp add: Let_def)
  have reread: "x4 = (if fst rr = FM_OK
                   then UpdateXcvrConfig L pc cfgs portIdx MAX_CONFIG_RETRY (snd rr)
                   else snd rr)"
    if "xcvrState AND FM_PLAT_XCVR_PRESENT pc \<noteq> 0 \<and> xcvrState AND FM_PLAT_XCVR_ENABLE pc \<noteq> 0"
    unfolding assms(5) assms(6) assms(7) using u that by (simp add: Let_def case_prod_beta)
  have r3: "configRetries (x3 ! portIdx) = configRetries (xcvrInfo ! portIdx)"
    if "\<not> (xcvrStateValid AND FM_PLAT_XCVR_ENABLE pc \<noteq> 0 \<and>
          modState (xcvrInfo ! portIdx) AND FM_PLAT_XCVR_ENABLE pc \<noteq>
          xcvrState AND FM_PLAT_XCVR_ENABLE pc)"
    unfolding assms(5) using that by (rule XcvrUpdateState_change_configRetries [OF assms(1)])
  have rrr: "configRetries (snd rr ! portIdx) = configRetries (x3 ! portIdx)"
    unfolding assms(7) using l3 by (rule XcvrReadAndValidateEeprom_configRetries)
  have keep: "configRetries (x4 ! portIdx) = configRetries (xcvrInfo ! portIdx)"
    if e: "\<not> (xcvrStateValid AND FM_PLAT_XCVR_ENABLE pc \<noteq> 0 \<and>
          modState (xcvrInfo ! portIdx) AND FM_PLAT_XCVR_ENABLE pc \<noteq>
          xcvrState AND FM_PLAT_XCVR_ENABLE pc)"
      and n: "\<not> (xcvrState AND FM_PLAT_XCVR_PRESENT pc \<noteq> 0 \<and>
          xcvrState AND FM_PLAT_XCVR_ENABLE pc \<noteq> 0 \<and>
          fst rr = FM_OK \<and> intfType (cfgs ! portIdx) = FM_PLAT_INTF_TYPE_SFPP)"
  proof (cases "xcvrState AND FM_PLAT_XCVR_PRESENT pc \<noteq> 0 \<and>
      xcvrState AND FM_PLAT_XCVR_ENABLE pc \<noteq> 0")
    case False
    then have "x4 = x3" by (rule stay)
    with r3 [OF e] show ?thesis by simp
  next
    case True
    note x = reread [OF True]
    show ?thesis
    proof (cases "fst rr = FM_OK")
      case False
      with x rrr r3 [OF e] show ?thesis by simp
    next
      case ok: True
      with n True have "intfType (cfgs ! portIdx) \<noteq> FM_PLAT_INTF_TYPE_SFPP" by blast
      then have "UpdateXcvrConfig L pc cfgs portIdx MAX_CONFIG_RETRY (snd rr) = snd rr"
        by (rule UpdateXcvrConfig_other)
      with x ok rrr r3 [OF e] show ?thesis by simp
    qed
  qed
  have config: "configRetries (x4 ! portIdx) =
              (if ConfigureSfppXcvr L pc (cfgPort (cfgs ! portIdx))
                    ((snd rr ! portIdx)\<lparr>configRetries := MAX_CONFIG_RETRY - 1\<rparr>) \<noteq> FM_OK
               then MAX_CONFIG_RETRY - 1 else 0)"
    if h: "xcvrState AND FM_PLAT_XCVR_PRESENT pc \<noteq> 0 \<and>
      xcvrState AND FM_PLAT_XCVR_ENABLE pc \<noteq> 0 \<and>
      fst rr = FM_OK \<and> intfType (cfgs ! portIdx) = FM_PLAT_INTF_TYPE_SFPP"
  proof -
    from h have pe: "xcvrState AND FM_PLAT_XCVR_PRESENT pc \<noteq> 0 \<and>
        xcvrState AND FM_PLAT_XCVR_ENABLE pc \<noteq> 0"
      and ok: "fst rr = FM_OK"
      and sf: "intfType (cfgs ! portIdx) = FM_PLAT_INTF_TYPE_SFPP"
      by blast+
    from reread [OF pe] ok
    have "x4 = UpdateXcvrConfig L pc cfgs portIdx MAX_CONFIG_RETRY (snd rr)" by simp
    then show ?thesis
      by (simp only: UpdateXcvrConfig_configRetries [OF sf lr])
  qed
  from reset notify stay reread keep config show ?thesis by blast
qed

lemma ConfigureSfppXcvr_example:
  "ConfigureSfppXcvr plat_lib_example pc prt xi = FM_OK"
  by (simp add: ConfigureSfppXcvr_def IsSfppModuleDualRate_def IsSfppModule1000BaseT_def
      plat_lib_example_def Let_def)

lemma XcvrReadAndValidateEeprom_example:
  "fst (XcvrReadAndValidateEeprom plat_lib_example cfgs portIdx retry x) = FM_OK"
  by (simp add: XcvrReadAndValidateEeprom_def plat_lib_example_def Let_def)

text \<open>
  On the example switch. The module of port index 1 is removed (state \<open>0x1\<close> to \<open>0\<close>): the
  turn ends with the records of the state-change step, type \<^verbatim>\<open>NOT_PRESENT\<close>, read-retry
  counter 0, and the config-retry counter still 4. A module is inserted into the enabled
  cage of port index 0 (state \<open>0x2\<close> to \<open>0x3\<close>, config-retry counter 4 before): only the
  PRESENT bit changes, the EEPROM is read, the transceiver is configured and the counter
  ends at 0.
\<close>

theorem xcvr_update_state_present_change_witness:
  "modState (xcvr_present_example) AND FM_PLAT_XCVR_PRESENT plat_consts_example \<noteq>
     0 AND FM_PLAT_XCVR_PRESENT plat_consts_example \<and>
   fst (XcvrUpdateState_port plat_lib_example plat_consts_example cfgs_example 1 0xF 0
     [xcvr_absent_example, xcvr_present_example]) =
   fst (XcvrUpdateState_change plat_consts_example 1 0xF 0
     [xcvr_absent_example, xcvr_present_example]) \<and>
   xcvrType (fst (XcvrUpdateState_port plat_lib_example plat_consts_example cfgs_example 1 0xF 0
     [xcvr_absent_example, xcvr_present_example]) ! 1) = FM_PLATFORM_XCVR_TYPE_NOT_PRESENT \<and>
   eepromReadRetries (fst (XcvrUpdateState_port plat_lib_example plat_consts_example cfgs_example
     1 0xF 0 [xcvr_absent_example, xcvr_present_example]) ! 1) = 0 \<and>
   configRetries (fst (XcvrUpdateState_port plat_lib_example plat_consts_example cfgs_example
     1 0xF 0 [xcvr_absent_example, xcvr_present_example]) ! 1) = 4 \<and>
   modState (xcvr_absent_example\<lparr>modState := 0x2, configRetries := 4\<rparr>) AND
     FM_PLAT_XCVR_ENABLE plat_consts_example =
     0x3 AND FM_PLAT_XCVR_ENABLE plat_consts_example \<and>
   configRetries (fst (XcvrUpdateState_port plat_lib_example plat_consts_example cfgs_example
     0 0xF 0x3 [xcvr_absent_example\<lparr>modState := 0x2, configRetries := 4\<rparr>,
                xcvr_present_example]) ! 0) = 0"
proof -
  have a0: "(0::nat) < length [xcvr_absent_example\<lparr>modState := 0x2, configRetries := 4\<rparr>,
      xcvr_present_example]" by simp
  have b0: "intfType (cfgs_example ! 0) = FM_PLAT_INTF_TYPE_SFPP \<or>
         intfType (cfgs_example ! 0) = FM_PLAT_INTF_TYPE_QSFP_LANE0"
    and s0: "intfType (cfgs_example ! 0) = FM_PLAT_INTF_TYPE_SFPP"
    by (simp_all add: cfgs_example_def)
  have d0: "modState ([xcvr_absent_example\<lparr>modState := 0x2, configRetries := 4\<rparr>,
      xcvr_present_example] ! 0) AND
      FM_PLAT_XCVR_PRESENT plat_consts_example \<noteq> 0x3 AND FM_PLAT_XCVR_PRESENT plat_consts_example"
    by (simp add: plat_consts_example_def)
  have e0: "(0x3 :: 32 word) AND FM_PLAT_XCVR_PRESENT plat_consts_example \<noteq> 0 \<and>
      (0x3 :: 32 word) AND FM_PLAT_XCVR_ENABLE plat_consts_example \<noteq> 0"
    by (simp add: plat_consts_example_def)
  have n0: "modState (xcvr_absent_example\<lparr>modState := 0x2, configRetries := 4\<rparr>) AND
     FM_PLAT_XCVR_ENABLE plat_consts_example =
     0x3 AND FM_PLAT_XCVR_ENABLE plat_consts_example"
    by (simp add: plat_consts_example_def)
  have a: "(1::nat) < length [xcvr_absent_example, xcvr_present_example]" by simp
  have b: "intfType (cfgs_example ! 1) = FM_PLAT_INTF_TYPE_SFPP \<or>
         intfType (cfgs_example ! 1) = FM_PLAT_INTF_TYPE_QSFP_LANE0"
    by (simp add: cfgs_example_def)
  have c: "(0xF :: 32 word) AND FM_PLAT_XCVR_PRESENT plat_consts_example \<noteq> 0"
    by (simp add: plat_consts_example_def)
  have d: "modState ([xcvr_absent_example, xcvr_present_example] ! 1) AND
      FM_PLAT_XCVR_PRESENT plat_consts_example \<noteq> 0 AND FM_PLAT_XCVR_PRESENT plat_consts_example"
    by (simp add: plat_consts_example_def xcvr_present_example_def)
  have e: "\<not> ((0 :: 32 word) AND FM_PLAT_XCVR_PRESENT plat_consts_example \<noteq> 0 \<and>
      (0 :: 32 word) AND FM_PLAT_XCVR_ENABLE plat_consts_example \<noteq> 0)"
    by simp
  have n: "modState xcvr_present_example AND FM_PLAT_XCVR_ENABLE plat_consts_example = 0"
    by (simp add: plat_consts_example_def xcvr_present_example_def)
  have k: "configRetries ([xcvr_absent_example, xcvr_present_example] ! 1) = 4"
    by (simp add: xcvr_present_example_def)
  from xcvr_update_state_present_change [OF a0 b0 c d0 refl refl refl, of plat_lib_example,
      THEN conjunct2, THEN conjunct2, THEN conjunct2, THEN conjunct2, THEN conjunct2] e0 s0
  have i0: "configRetries (fst (XcvrUpdateState_port plat_lib_example plat_consts_example
     cfgs_example 0 0xF 0x3 [xcvr_absent_example\<lparr>modState := 0x2, configRetries := 4\<rparr>,
                xcvr_present_example]) ! 0) = 0"
    by (simp add: ConfigureSfppXcvr_example XcvrReadAndValidateEeprom_example)
  note t1 = xcvr_update_state_present_change [OF a b c d refl refl refl, of plat_lib_example]
  from t1 [THEN conjunct2, THEN conjunct2, THEN conjunct1] e
  have j1: "fst (XcvrUpdateState_port plat_lib_example plat_consts_example cfgs_example 1 0xF 0
     [xcvr_absent_example, xcvr_present_example]) =
   fst (XcvrUpdateState_change plat_consts_example 1 0xF 0
     [xcvr_absent_example, xcvr_present_example])"
    by simp
  from t1 [THEN conjunct1]
  have j2: "xcvrType (fst (XcvrUpdateState_port plat_lib_example plat_consts_example cfgs_example
     1 0xF 0 [xcvr_absent_example, xcvr_present_example]) ! 1) =
     FM_PLATFORM_XCVR_TYPE_NOT_PRESENT"
    and j3: "eepromReadRetries (fst (XcvrUpdateState_port plat_lib_example plat_consts_example
     cfgs_example 1 0xF 0 [xcvr_absent_example, xcvr_present_example]) ! 1) = 0"
    unfolding j1 by simp_all
  from t1 [THEN conjunct2, THEN conjunct2, THEN conjunct2, THEN conjunct2, THEN conjunct1] n k
  have j4: "configRetries (fst (XcvrUpdateState_port plat_lib_example plat_consts_example
     cfgs_example 1 0xF 0 [xcvr_absent_example, xcvr_present_example]) ! 1) = 4"
    by simp
  from j1 j2 j3 j4
  have i1: "fst (XcvrUpdateState_port plat_lib_example plat_consts_example cfgs_example 1 0xF 0
     [xcvr_absent_example, xcvr_present_example]) =
   fst (XcvrUpdateState_change plat_consts_example 1 0xF 0
     [xcvr_absent_example, xcvr_present_example]) \<and>
   xcvrType (fst (XcvrUpdateState_port plat_lib_example plat_consts_example cfgs_example 1 0xF 0
     [xcvr_absent_example, xcvr_present_example]) ! 1) = FM_PLATFORM_XCVR_TYPE_NOT_PRESENT \<and>
   eepromReadRetries (fst (XcvrUpdateState_port plat_lib_example plat_consts_example cfgs_example
     1 0xF 0 [xcvr_absent_example, xcvr_present_example]) ! 1) = 0 \<and>
   configRetries (fst (XcvrUpdateState_port plat_lib_example plat_consts_example cfgs_example
     1 0xF 0 [xcvr_absent_example, xcvr_present_example]) ! 1) = 4"
    by blast
  have d1: "modState (xcvr_present_example) AND FM_PLAT_XCVR_PRESENT plat_consts_example \<noteq>
     0 AND FM_PLAT_XCVR_PRESENT plat_consts_example"
    using d by simp
  from i0 i1 d1 n0 show ?thesis by blast
qed

text \<open>
  Claim C1 as stated fails for the module of port index 1 that is removed while a
  configuration retry is pending: after the sweep the record of index 1 still holds the
  cached EEPROM bytes \<open>[0x03, 0x04]\<close>, not \<open>0xFF\<close>, and a config-retry counter of 4.
\<close>

theorem xcvr_removal_keeps_cache_and_config_retries:
  "modState ([xcvr_absent_example, xcvr_present_example] ! 1) AND
      FM_PLAT_XCVR_PRESENT plat_consts_example \<noteq> 0 AND FM_PLAT_XCVR_PRESENT plat_consts_example \<and>
   (0xF :: 32 word) AND FM_PLAT_XCVR_PRESENT plat_consts_example \<noteq> 0 \<and>
   XcvrUpdateState_loop plat_lib_example plat_consts_example cfgs_example [(1, 0xF, 0)]
     [xcvr_absent_example, xcvr_present_example] =
   Some [xcvr_absent_example,
     xcvr_present_example\<lparr>modState := 0, xcvrType := FM_PLATFORM_XCVR_TYPE_NOT_PRESENT,
        cableLength := 0, present := False, eepromBaseValid := False,
        eepromExtValid := False\<rparr>] \<and>
   eeprom (xcvr_present_example\<lparr>modState := 0, xcvrType := FM_PLATFORM_XCVR_TYPE_NOT_PRESENT,
        cableLength := 0, present := False, eepromBaseValid := False,
        eepromExtValid := False\<rparr>) = [0x03, 0x04] \<and>
   configRetries (xcvr_present_example\<lparr>modState := 0,
        xcvrType := FM_PLATFORM_XCVR_TYPE_NOT_PRESENT,
        cableLength := 0, present := False, eepromBaseValid := False,
        eepromExtValid := False\<rparr>) = 4"
  by (simp add: XcvrUpdateState_port_def XcvrUpdateState_change_def Let_def cfgs_example_def
      plat_consts_example_def xcvr_absent_example_def xcvr_present_example_def)


section \<open>Properties of the timer scaling\<close>

lemmas AnGetTimeScale_loop_at =
  AnGetTimeScale_loop.simps [of _ _ 2] AnGetTimeScale_loop.simps [of _ _ 3]
  AnGetTimeScale_loop.simps [of _ _ 4] AnGetTimeScale_loop.simps [of _ _ 5]
  AnGetTimeScale_loop.simps [of _ _ 6] AnGetTimeScale_loop.simps [of _ _ 7]
  AnGetTimeScale_loop.simps [of _ _ 8]

text \<open>No product of the loop leaves the 32-bit range: each is at most the input.\<close>

lemma scaled_count_no_wrap:
  "usec < 4294967296 \<Longrightarrow> (usec div 1) mod 4294967296 = (usec::nat)"
  "usec < 4294967296 \<Longrightarrow> (10 * (usec div 10)) mod 4294967296 = 10 * (usec div 10)"
  "usec < 4294967296 \<Longrightarrow> (100 * (usec div 100)) mod 4294967296 = 100 * (usec div 100)"
  "usec < 4294967296 \<Longrightarrow> (1000 * (usec div 1000)) mod 4294967296 = 1000 * (usec div 1000)"
  "usec < 4294967296 \<Longrightarrow> (10000 * (usec div 10000)) mod 4294967296 = 10000 * (usec div 10000)"
  "usec < 4294967296 \<Longrightarrow> (100000 * (usec div 100000)) mod 4294967296 = 100000 * (usec div 100000)"
  by simp_all

lemma time_scale_closed_form:
  assumes "usec < 4294967296"
  shows "fm10000AnGetTimeScale usec mx t0 =
     (case first_time_scale usec mx of
        Some t \<Rightarrow> (10 ^ (t - 2) * (usec div 10 ^ (t - 2)), t, usec div 10 ^ (t - 2))
      | None \<Rightarrow> (10 ^ 5 * (usec div 10 ^ 5), 8, usec div 10 ^ 5))"
  using assms
  by (simp add: fm10000AnGetTimeScale_def first_time_scale_def AnGetTimeScale_loop_at
      Let_def scaled_count_no_wrap)

lemma time_scale_example: "fm10000AnGetTimeScale 513999 512 0 = (510000, 6, 51)"
  by (simp add: fm10000AnGetTimeScale_def AnGetTimeScale_loop_at Let_def)

text \<open>
  Claim C7. For every 32-bit timeout \<open>timeoutUsec\<close> (in microseconds) and hardware maximum
  \<open>timeoutMax\<close>, \<^verbatim>\<open>fm10000AnGetTimeScale\<close> tries the timescales 2 up to 7 with the count
  \<open>n = timeoutUsec div 10 ^ (timeScale - 2)\<close> and stops at the first one whose count is
  below \<open>timeoutMax\<close>: no smaller timescale has such a count. The value it returns, the
  effective timeout, is \<open>10 ^ (timeScale - 2) * n\<close>, and it differs from \<open>timeoutUsec\<close> by less
  than \<open>10 ^ (timeScale - 1)\<close>. Whenever some timescale from 2 to 7 has a count below the
  maximum the function stops there; when none has, it leaves the loop with
  \<^verbatim>\<open>*timeScale = 8\<close> and the count and effective timeout of timescale 7.
\<close>

theorem an_get_time_scale_first_pair:
  assumes "timeoutUsec < 4294967296"
    and "fm10000AnGetTimeScale timeoutUsec timeoutMax t0 = (effective, timeScale, n)"
  shows "2 \<le> timeScale \<and> timeScale \<le> 8 \<and>
     (timeScale \<le> 7 \<longrightarrow>
        n = timeoutUsec div 10 ^ (timeScale - 2) \<and> n < timeoutMax \<and>
        (\<forall>t \<in> set [2..<timeScale]. \<not> timeoutUsec div 10 ^ (t - 2) < timeoutMax) \<and>
        effective = 10 ^ (timeScale - 2) * n \<and>
        \<bar>int effective - int timeoutUsec\<bar> < 10 ^ (timeScale - 1)) \<and>
     ((\<exists>t \<in> set [2..<8]. timeoutUsec div 10 ^ (t - 2) < timeoutMax) \<longrightarrow> timeScale \<le> 7) \<and>
     (timeScale = 8 \<longrightarrow> n = timeoutUsec div 10 ^ 5 \<and> effective = 10 ^ 5 * n)"
proof -
  note cf = time_scale_closed_form [OF assms(1), of timeoutMax t0, unfolded assms(2)]
  consider (s2) "timeoutUsec < timeoutMax"
    | (s3) "\<not> timeoutUsec < timeoutMax" "timeoutUsec div 10 < timeoutMax"
    | (s4) "\<not> timeoutUsec < timeoutMax" "\<not> timeoutUsec div 10 < timeoutMax"
           "timeoutUsec div 100 < timeoutMax"
    | (s5) "\<not> timeoutUsec < timeoutMax" "\<not> timeoutUsec div 10 < timeoutMax"
           "\<not> timeoutUsec div 100 < timeoutMax" "timeoutUsec div 1000 < timeoutMax"
    | (s6) "\<not> timeoutUsec < timeoutMax" "\<not> timeoutUsec div 10 < timeoutMax"
           "\<not> timeoutUsec div 100 < timeoutMax" "\<not> timeoutUsec div 1000 < timeoutMax"
           "timeoutUsec div 10000 < timeoutMax"
    | (s7) "\<not> timeoutUsec < timeoutMax" "\<not> timeoutUsec div 10 < timeoutMax"
           "\<not> timeoutUsec div 100 < timeoutMax" "\<not> timeoutUsec div 1000 < timeoutMax"
           "\<not> timeoutUsec div 10000 < timeoutMax" "timeoutUsec div 100000 < timeoutMax"
    | (s8) "\<not> timeoutUsec < timeoutMax" "\<not> timeoutUsec div 10 < timeoutMax"
           "\<not> timeoutUsec div 100 < timeoutMax" "\<not> timeoutUsec div 1000 < timeoutMax"
           "\<not> timeoutUsec div 10000 < timeoutMax" "\<not> timeoutUsec div 100000 < timeoutMax"
    by blast
  then show ?thesis
  proof cases
    case s2
    with cf show ?thesis by (simp add: first_time_scale_def)
  next
    case s3
    with cf have "effective = 10 * (timeoutUsec div 10)" "timeScale = 3" "n = timeoutUsec div 10"
      by (simp_all add: first_time_scale_def)
    with s3 show ?thesis by simp
  next
    case s4
    with cf have "effective = 100 * (timeoutUsec div 100)" "timeScale = 4" "n = timeoutUsec div 100"
      by (simp_all add: first_time_scale_def)
    with s4 show ?thesis by simp
  next
    case s5
    with cf have "effective = 1000 * (timeoutUsec div 1000)" "timeScale = 5"
      "n = timeoutUsec div 1000"
      by (simp_all add: first_time_scale_def)
    with s5 show ?thesis by simp
  next
    case s6
    with cf have "effective = 10000 * (timeoutUsec div 10000)" "timeScale = 6"
      "n = timeoutUsec div 10000"
      by (simp_all add: first_time_scale_def)
    with s6 show ?thesis by simp
  next
    case s7
    with cf have "effective = 100000 * (timeoutUsec div 100000)" "timeScale = 7"
      "n = timeoutUsec div 100000"
      by (simp_all add: first_time_scale_def)
    with s7 show ?thesis by simp
  next
    case s8
    with cf have "effective = 100000 * (timeoutUsec div 100000)" "timeScale = 8"
      "n = timeoutUsec div 100000"
      by (simp_all add: first_time_scale_def)
    with s8 show ?thesis by simp
  qed
qed

theorem an_get_time_scale_first_pair_witness:
  "(513999::nat) < 4294967296 \<and> fm10000AnGetTimeScale 513999 512 0 = (510000, 6, 51) \<and>
   (51::nat) = 513999 div 10 ^ (6 - 2) \<and> (51::nat) < 512 \<and>
   \<bar>int 510000 - int 513999\<bar> < (10::int) ^ (6 - 1)"
proof -
  have a: "(513999::nat) < 4294967296" by simp
  have b: "fm10000AnGetTimeScale 513999 512 0 = (510000, 6, 51)"
    by (rule time_scale_example)
  have h: "(6::nat) \<le> 7" by simp
  from an_get_time_scale_first_pair [OF a b] h
  have "(51::nat) = 513999 div 10 ^ (6 - 2) \<and> (51::nat) < 512 \<and>
    \<bar>int 510000 - int 513999\<bar> < (10::int) ^ (6 - 1)" by blast
  with a b show ?thesis by blast
qed

end
